theory Spec2Isabelle
  imports Complex_Main "HOL-Library.Word"
begin

section \<open>Data model of the 2D collision simulator (main.c)\<close>

text \<open>
  The C program computes in \<open>float\<close>. The embedding computes in exact arithmetic: every
  \<open>float\<close> is a \<open>real\<close>, \<open>sqrtf\<close> is the real square root. A C \<open>int\<close> is an
  \<open>int\<close>; the program only ever adds two radii and subtracts a radius from the window
  size, far away from the limits of a 32-bit integer. A division whose divisor is zero has
  no value in exact arithmetic, so it is an error of the model; reading an array beyond its
  end is the other one.

  A second embedding, further down, computes as the machine does: every operation is rounded
  to IEEE binary32. There a result that is not a finite number is the error \<open>NotFinite\<close>.
\<close>

datatype error = DivByZero | OutOfBounds | NotFinite

text \<open>Simulation constants. The restitution coefficient is \<open>1.0f\<close> in one copy of the
  source and \<open>0.85f\<close> in the other, so every function that reads it takes it as its first
  argument.\<close>

definition WIDTH :: int where "WIDTH = 800"
definition HEIGHT :: int where "HEIGHT = 600"
definition MIN_BALL_RADIUS :: int where "MIN_BALL_RADIUS = 15"
definition MAX_BALL_RADIUS :: int where "MAX_BALL_RADIUS = 35"
definition VELOCITY_SCALE :: real where "VELOCITY_SCALE = 200"

text \<open>\<open>Vector2\<close> and \<open>Color\<close> are the graphics library's types: two floats, and four
  unsigned bytes (red, green, blue, alpha).\<close>

record Vector2 =
  x :: real
  y :: real

datatype Color = Color "8 word" "8 word" "8 word" "8 word"

record Ball =
  position :: Vector2
  velocity :: Vector2
  radius :: int
  mass :: real
  color :: Color

section \<open>Fallible arithmetic\<close>

definition fdiv :: "real \<Rightarrow> real \<Rightarrow> error + real" where
  "fdiv p q = (if q = 0 then Inl DivByZero else Inr (p / q))"

definition bindE :: "error + 'a \<Rightarrow> ('a \<Rightarrow> error + 'b) \<Rightarrow> error + 'b" where
  "bindE m f = (case m of Inl err \<Rightarrow> Inl err | Inr v \<Rightarrow> f v)"

section \<open>CalculateTotalKineticEnergy\<close>

text \<open>The body of the loop: \<open>speedSq\<close> and \<open>kineticEnergy\<close> of one ball.\<close>

definition kineticEnergy :: "Ball \<Rightarrow> real" where
  "kineticEnergy ball =
     (let speedSq = x (velocity ball) * x (velocity ball) + y (velocity ball) * y (velocity ball)
      in 0.5 * mass ball * speedSq)"

definition CalculateTotalKineticEnergy :: "Ball list \<Rightarrow> int \<Rightarrow> error + real" where
  "CalculateTotalKineticEnergy balls numBalls =
     (if int (length balls) < numBalls then Inl OutOfBounds
      else Inr (fold (\<lambda>i totalEnergy. totalEnergy + kineticEnergy (balls ! i))
                  [0 ..< nat numBalls] 0))"

section \<open>CheckWallCollision\<close>

definition CheckWallCollision :: "real \<Rightarrow> Ball \<Rightarrow> Ball" where
  "CheckWallCollision RESTITUTION_COEFFICIENT ball =
     (let ball1 =
            (if x (position ball) - real_of_int (radius ball) \<le> 0 then
               ball\<lparr>position := (position ball)\<lparr>x := real_of_int (radius ball)\<rparr>,
                    velocity := (velocity ball)\<lparr>x := x (velocity ball) * (- RESTITUTION_COEFFICIENT)\<rparr>\<rparr>
             else if x (position ball) + real_of_int (radius ball) \<ge> real_of_int WIDTH then
               ball\<lparr>position := (position ball)\<lparr>x := real_of_int (WIDTH - radius ball)\<rparr>,
                    velocity := (velocity ball)\<lparr>x := x (velocity ball) * (- RESTITUTION_COEFFICIENT)\<rparr>\<rparr>
             else ball)
      in
        (if y (position ball1) - real_of_int (radius ball1) \<le> 0 then
           ball1\<lparr>position := (position ball1)\<lparr>y := real_of_int (radius ball1)\<rparr>,
                 velocity := (velocity ball1)\<lparr>y := y (velocity ball1) * (- RESTITUTION_COEFFICIENT)\<rparr>\<rparr>
         else if y (position ball1) + real_of_int (radius ball1) \<ge> real_of_int HEIGHT then
           ball1\<lparr>position := (position ball1)\<lparr>y := real_of_int (HEIGHT - radius ball1)\<rparr>,
                 velocity := (velocity ball1)\<lparr>y := y (velocity ball1) * (- RESTITUTION_COEFFICIENT)\<rparr>\<rparr>
         else ball1))"

section \<open>CheckBallCollision\<close>

text \<open>The two balls are passed by pointer and updated in place; the model returns the
  pair of updated balls. The callers never pass the same ball twice. The early
  \<open>return\<close> on separating velocities comes after the positions were corrected.\<close>

definition CheckBallCollision :: "real \<Rightarrow> Ball \<Rightarrow> Ball \<Rightarrow> error + (Ball \<times> Ball)" where
  "CheckBallCollision RESTITUTION_COEFFICIENT b1 b2 =
     (let dx = x (position b2) - x (position b1);
          dy = y (position b2) - y (position b1);
          distSq = dx * dx + dy * dy;
          min_dist = real_of_int (radius b1 + radius b2)
      in
        if distSq < min_dist * min_dist \<and> distSq > 0 then
          (let distance = sqrt distSq in
           bindE (fdiv dx distance) (\<lambda>nx.
           bindE (fdiv dy distance) (\<lambda>ny.
             (let overlap = 0.5 * (min_dist - distance);
                  p1 = \<lparr>x = x (position b1) - overlap * nx, y = y (position b1) - overlap * ny\<rparr>;
                  p2 = \<lparr>x = x (position b2) + overlap * nx, y = y (position b2) + overlap * ny\<rparr>;
                  relativeVelocity = \<lparr>x = x (velocity b2) - x (velocity b1),
                                      y = y (velocity b2) - y (velocity b1)\<rparr>;
                  velocityAlongNormal = x relativeVelocity * nx + y relativeVelocity * ny
              in
                if velocityAlongNormal > 0 then
                  Inr (b1\<lparr>position := p1\<rparr>, b2\<lparr>position := p2\<rparr>)
                else
                  bindE (fdiv 1 (mass b1)) (\<lambda>inv1.
                  bindE (fdiv 1 (mass b2)) (\<lambda>inv2.
                  bindE (fdiv (- (1 + RESTITUTION_COEFFICIENT) * velocityAlongNormal) (inv1 + inv2)) (\<lambda>impulse.
                  bindE (fdiv (impulse * nx) (mass b1)) (\<lambda>d1x.
                  bindE (fdiv (impulse * ny) (mass b1)) (\<lambda>d1y.
                  bindE (fdiv (impulse * nx) (mass b2)) (\<lambda>d2x.
                  bindE (fdiv (impulse * ny) (mass b2)) (\<lambda>d2y.
                    Inr (b1\<lparr>position := p1,
                             velocity := \<lparr>x = x (velocity b1) - d1x, y = y (velocity b1) - d1y\<rparr>\<rparr>,
                         b2\<lparr>position := p2,
                             velocity := \<lparr>x = x (velocity b2) + d2x, y = y (velocity b2) + d2y\<rparr>\<rparr>))))))))))))
        else Inr (b1, b2))"

text \<open>The intermediate quantities of \<open>CheckBallCollision\<close>, as functions of the two
  balls, for stating properties.\<close>

definition distSq :: "Ball \<Rightarrow> Ball \<Rightarrow> real" where
  "distSq b1 b2 =
     (x (position b2) - x (position b1)) * (x (position b2) - x (position b1)) +
     (y (position b2) - y (position b1)) * (y (position b2) - y (position b1))"

definition min_dist :: "Ball \<Rightarrow> Ball \<Rightarrow> real" where
  "min_dist b1 b2 = real_of_int (radius b1 + radius b2)"

definition in_contact :: "Ball \<Rightarrow> Ball \<Rightarrow> bool" where
  "in_contact b1 b2 \<longleftrightarrow> distSq b1 b2 < min_dist b1 b2 * min_dist b1 b2 \<and> distSq b1 b2 > 0"

definition normal :: "Ball \<Rightarrow> Ball \<Rightarrow> Vector2" where
  "normal b1 b2 =
     \<lparr>x = (x (position b2) - x (position b1)) / sqrt (distSq b1 b2),
      y = (y (position b2) - y (position b1)) / sqrt (distSq b1 b2)\<rparr>"

definition overlap :: "Ball \<Rightarrow> Ball \<Rightarrow> real" where
  "overlap b1 b2 = 0.5 * (min_dist b1 b2 - sqrt (distSq b1 b2))"

definition velocityAlongNormal :: "Ball \<Rightarrow> Ball \<Rightarrow> real" where
  "velocityAlongNormal b1 b2 =
     (x (velocity b2) - x (velocity b1)) * x (normal b1 b2) +
     (y (velocity b2) - y (velocity b1)) * y (normal b1 b2)"

definition corrected1 :: "Ball \<Rightarrow> Ball \<Rightarrow> Vector2" where
  "corrected1 b1 b2 =
     \<lparr>x = x (position b1) - overlap b1 b2 * x (normal b1 b2),
      y = y (position b1) - overlap b1 b2 * y (normal b1 b2)\<rparr>"

definition corrected2 :: "Ball \<Rightarrow> Ball \<Rightarrow> Vector2" where
  "corrected2 b1 b2 =
     \<lparr>x = x (position b2) + overlap b1 b2 * x (normal b1 b2),
      y = y (position b2) + overlap b1 b2 * y (normal b1 b2)\<rparr>"

definition impulse :: "real \<Rightarrow> Ball \<Rightarrow> Ball \<Rightarrow> real" where
  "impulse RESTITUTION_COEFFICIENT b1 b2 =
     - (1 + RESTITUTION_COEFFICIENT) * velocityAlongNormal b1 b2 / (1 / mass b1 + 1 / mass b2)"

section \<open>UpdateFrame\<close>

text \<open>A loop whose body may fail stops at the first failure.\<close>

primrec foldE :: "('a \<Rightarrow> 's \<Rightarrow> error + 's) \<Rightarrow> 'a list \<Rightarrow> 's \<Rightarrow> error + 's" where
  "foldE f [] s = Inr s"
| "foldE f (i # rest) s = (case f i s of Inl err \<Rightarrow> Inl err | Inr s' \<Rightarrow> foldE f rest s')"

text \<open>The body of the first loop: one ball moves by its velocity times the frame time.\<close>

definition integrate :: "real \<Rightarrow> Ball \<Rightarrow> Ball" where
  "integrate deltaTime ball =
     ball\<lparr>position := \<lparr>x = x (position ball) + x (velocity ball) * deltaTime,
                        y = y (position ball) + y (velocity ball) * deltaTime\<rparr>\<rparr>"

text \<open>The body of the inner loop: \<open>CheckBallCollision(&balls[i], &balls[j])\<close> writes
  both balls back into the array.\<close>

definition pair_step :: "real \<Rightarrow> nat \<Rightarrow> nat \<Rightarrow> Ball list \<Rightarrow> error + Ball list" where
  "pair_step RESTITUTION_COEFFICIENT i j balls =
     (case CheckBallCollision RESTITUTION_COEFFICIENT (balls ! i) (balls ! j) of
        Inl err \<Rightarrow> Inl err
      | Inr (b1, b2) \<Rightarrow> Inr (balls[i := b1, j := b2]))"

text \<open>The body of the second loop: the wall check of ball \<open>i\<close>, then its collisions with
  every later ball.\<close>

definition collide_step :: "real \<Rightarrow> nat \<Rightarrow> nat \<Rightarrow> Ball list \<Rightarrow> error + Ball list" where
  "collide_step RESTITUTION_COEFFICIENT n i balls =
     foldE (pair_step RESTITUTION_COEFFICIENT i) [i + 1 ..< n]
       (balls[i := CheckWallCollision RESTITUTION_COEFFICIENT (balls ! i)])"

text \<open>\<open>GetFrameTime()\<close> is the argument \<open>deltaTime\<close>. The array is a list; a ball count
  beyond its length reads outside the array.\<close>

definition UpdateFrame :: "real \<Rightarrow> real \<Rightarrow> Ball list \<Rightarrow> int \<Rightarrow> error + Ball list" where
  "UpdateFrame RESTITUTION_COEFFICIENT deltaTime balls numBalls =
     (if int (length balls) < numBalls then Inl OutOfBounds
      else
        (let n = nat numBalls;
             moved = fold (\<lambda>i bs. bs[i := integrate deltaTime (bs ! i)]) [0 ..< n] balls
         in foldE (collide_step RESTITUTION_COEFFICIENT n) [0 ..< n] moved))"

text \<open>The main loop calls \<open>UpdateFrame\<close> once per frame; a run is the list of the frame
  times.\<close>

primrec UpdateFrames :: "real \<Rightarrow> real list \<Rightarrow> Ball list \<Rightarrow> int \<Rightarrow> error + Ball list" where
  "UpdateFrames RESTITUTION_COEFFICIENT [] balls numBalls = Inr balls"
| "UpdateFrames RESTITUTION_COEFFICIENT (deltaTime # deltaTimes) balls numBalls =
     (case UpdateFrame RESTITUTION_COEFFICIENT deltaTime balls numBalls of
        Inl err \<Rightarrow> Inl err
      | Inr balls' \<Rightarrow> UpdateFrames RESTITUTION_COEFFICIENT deltaTimes balls' numBalls)"

text \<open>A ball lies inside the window when its whole disc does.\<close>

definition inside_window :: "Ball \<Rightarrow> bool" where
  "inside_window ball \<longleftrightarrow>
     real_of_int (radius ball) \<le> x (position ball) \<and>
     x (position ball) \<le> real_of_int (WIDTH - radius ball) \<and>
     real_of_int (radius ball) \<le> y (position ball) \<and>
     y (position ball) \<le> real_of_int (HEIGHT - radius ball)"

section \<open>InitBalls\<close>

text \<open>The random numbers come from the graphics library. Its generator is a parameter
  here: a sequence of raw draws and the number of draws taken so far.
  \<open>GetRandomValue(min, max)\<close> swaps its bounds when they are out of order and returns a
  value between them, both included.\<close>

type_synonym rng = "(nat \<Rightarrow> nat) \<times> nat"

definition GetRandomValue :: "int \<Rightarrow> int \<Rightarrow> rng \<Rightarrow> int \<times> rng" where
  "GetRandomValue lo hi g =
     (let mn = min lo hi; mx = max lo hi
      in (mn + int (fst g (snd g)) mod (mx - mn + 1), (fst g, Suc (snd g))))"

text \<open>Conversion of a float to an int truncates towards zero.\<close>

definition float_to_int :: "real \<Rightarrow> int" where
  "float_to_int v = (if v \<ge> 0 then \<lfloor>v\<rfloor> else \<lceil>v\<rceil>)"

text \<open>The placement loop: \<open>while (!positionFound && attempts < 100)\<close>. The two
  coordinates are drawn in the order in which they are written.\<close>

function place_loop :: "Ball list \<Rightarrow> nat \<Rightarrow> bool \<Rightarrow> nat \<Rightarrow> rng \<Rightarrow> Ball list \<times> rng" where
  "place_loop balls i positionFound attempts g =
     (if \<not> positionFound \<and> attempts < 100 then
        (case GetRandomValue (radius (balls ! i)) (WIDTH - radius (balls ! i)) g of
           (px, g1) \<Rightarrow>
        (case GetRandomValue (radius (balls ! i)) (HEIGHT - radius (balls ! i)) g1 of
           (py, g2) \<Rightarrow>
             place_loop
               (balls[i := (balls ! i)\<lparr>position := \<lparr>x = real_of_int px, y = real_of_int py\<rparr>\<rparr>])
               i
               (list_all
                  (\<lambda>j. \<not> ((real_of_int px - x (position (balls ! j))) * (real_of_int px - x (position (balls ! j))) +
                           (real_of_int py - y (position (balls ! j))) * (real_of_int py - y (position (balls ! j)))
                           < real_of_int (radius (balls ! i) + radius (balls ! j)) *
                             real_of_int (radius (balls ! i) + radius (balls ! j))))
                  [0 ..< i])
               (attempts + 1)
               g2))
      else (balls, g))"
  by pat_completeness auto
termination
  by (relation "measure (\<lambda>(balls, i, positionFound, attempts, g). 100 - attempts)") auto

declare place_loop.simps [simp del]

text \<open>The body of the outer loop of \<open>InitBalls\<close>.\<close>

definition init_ball :: "nat \<Rightarrow> Ball list \<times> rng \<Rightarrow> Ball list \<times> rng" where
  "init_ball i st =
     (case st of (balls, g) \<Rightarrow>
      (case GetRandomValue MIN_BALL_RADIUS MAX_BALL_RADIUS g of (r, g1) \<Rightarrow>
      (case place_loop (balls[i := (balls ! i)\<lparr>radius := r, mass := real_of_int r / 2\<rparr>]) i False 0 g1 of
         (balls1, g2) \<Rightarrow>
      (case GetRandomValue (float_to_int (- VELOCITY_SCALE)) (float_to_int VELOCITY_SCALE) g2 of (vx, g3) \<Rightarrow>
      (case GetRandomValue (float_to_int (- VELOCITY_SCALE)) (float_to_int VELOCITY_SCALE) g3 of (vy, g4) \<Rightarrow>
      (case GetRandomValue 100 255 g4 of (cr, g5) \<Rightarrow>
      (case GetRandomValue 100 255 g5 of (cg, g6) \<Rightarrow>
      (case GetRandomValue 100 255 g6 of (cb, g7) \<Rightarrow>
         (balls1[i := (balls1 ! i)\<lparr>velocity := \<lparr>x = real_of_int vx, y = real_of_int vy\<rparr>,
                                   color := Color (of_int cr) (of_int cg) (of_int cb) 255\<rparr>],
          g7)))))))))"

definition InitBalls :: "Ball list \<Rightarrow> int \<Rightarrow> rng \<Rightarrow> error + (Ball list \<times> rng)" where
  "InitBalls balls numBalls g =
     (if int (length balls) < numBalls then Inl OutOfBounds
      else Inr (fold init_ball [0 ..< nat numBalls] (balls, g)))"

section \<open>Binary32 arithmetic\<close>

text \<open>The binary exponent of a positive number: the \<open>e\<close> with \<open>2 ^ e \<le> a < 2 ^ (e + 1)\<close>,
  found by halving a number from 1 upwards and by doubling a number below 1. Binary32 has no
  exponent above 127, and below -126 its numbers are subnormal and share the exponent -126;
  the two bounds are the numbers of steps allowed.\<close>

fun expo_up :: "nat \<Rightarrow> real \<Rightarrow> int" where
  "expo_up n a = (if n = 0 \<or> a < 2 then 0 else 1 + expo_up (n - 1) (a / 2))"

fun expo_down :: "nat \<Rightarrow> real \<Rightarrow> int" where
  "expo_down n a = (if n = 0 \<or> 1 \<le> a then 0 else expo_down (n - 1) (a * 2) - 1)"

declare expo_up.simps [simp del]
declare expo_down.simps [simp del]

definition exponent32 :: "real \<Rightarrow> int" where
  "exponent32 v = (if 1 \<le> \<bar>v\<bar> then expo_up 128 \<bar>v\<bar> else expo_down 126 \<bar>v\<bar>)"

text \<open>The unit in the last place of a 24-bit significand.\<close>

definition ulp32 :: "real \<Rightarrow> real" where
  "ulp32 v = 2 powi (exponent32 v - 23)"

text \<open>Rounding to the nearest integer, a tie to the even one.\<close>

definition round_even :: "real \<Rightarrow> int" where
  "round_even w =
     (if w - of_int \<lfloor>w\<rfloor> < 1 / 2 then \<lfloor>w\<rfloor>
      else if 1 / 2 < w - of_int \<lfloor>w\<rfloor> then \<lfloor>w\<rfloor> + 1
      else if even \<lfloor>w\<rfloor> then \<lfloor>w\<rfloor> else \<lfloor>w\<rfloor> + 1)"

text \<open>Rounding of a real number to binary32, to nearest and ties to even; a result of
  magnitude \<open>2 ^ 128\<close> or more is an infinity.\<close>

definition fl32 :: "real \<Rightarrow> error + real" where
  "fl32 v =
     (if \<bar>of_int (round_even (v / ulp32 v)) * ulp32 v\<bar> < 2 ^ 128
      then Inr (of_int (round_even (v / ulp32 v)) * ulp32 v)
      else Inl NotFinite)"

definition add32 :: "real \<Rightarrow> real \<Rightarrow> error + real" where
  "add32 p q = fl32 (p + q)"

definition sub32 :: "real \<Rightarrow> real \<Rightarrow> error + real" where
  "sub32 p q = fl32 (p - q)"

definition mul32 :: "real \<Rightarrow> real \<Rightarrow> error + real" where
  "mul32 p q = fl32 (p * q)"

definition div32 :: "real \<Rightarrow> real \<Rightarrow> error + real" where
  "div32 p q = (if q = 0 then Inl DivByZero else fl32 (p / q))"

definition sqrt32 :: "real \<Rightarrow> error + real" where
  "sqrt32 p = (if p < 0 then Inl NotFinite else fl32 (sqrt p))"

text \<open>Conversion of an int to float.\<close>

definition int32 :: "int \<Rightarrow> error + real" where
  "int32 k = fl32 (real_of_int k)"

section \<open>CheckBallCollision in binary32\<close>

text \<open>The same function with every operation of the source rounded, in the order in which
  the source computes. A product that the source writes twice (\<open>overlap * nx\<close>,
  \<open>impulse * nx\<close> and the like) is computed once: both times it is the same number. The
  fields of the balls, the frame time and the restitution coefficient hold binary32 values.\<close>

definition CheckBallCollision32 :: "real \<Rightarrow> Ball \<Rightarrow> Ball \<Rightarrow> error + (Ball \<times> Ball)" where
  "CheckBallCollision32 RESTITUTION_COEFFICIENT b1 b2 =
     bindE (sub32 (x (position b2)) (x (position b1))) (\<lambda>dx.
     bindE (sub32 (y (position b2)) (y (position b1))) (\<lambda>dy.
     bindE (mul32 dx dx) (\<lambda>dxdx.
     bindE (mul32 dy dy) (\<lambda>dydy.
     bindE (add32 dxdx dydy) (\<lambda>distSq.
     bindE (int32 (radius b1 + radius b2)) (\<lambda>min_dist.
     bindE (mul32 min_dist min_dist) (\<lambda>min_dist_sq.
       if distSq < min_dist_sq \<and> distSq > 0 then
         bindE (sqrt32 distSq) (\<lambda>distance.
         bindE (div32 dx distance) (\<lambda>nx.
         bindE (div32 dy distance) (\<lambda>ny.
         bindE (sub32 min_dist distance) (\<lambda>gap.
         bindE (mul32 0.5 gap) (\<lambda>overlap.
         bindE (mul32 overlap nx) (\<lambda>ox.
         bindE (sub32 (x (position b1)) ox) (\<lambda>p1x.
         bindE (mul32 overlap ny) (\<lambda>oy.
         bindE (sub32 (y (position b1)) oy) (\<lambda>p1y.
         bindE (add32 (x (position b2)) ox) (\<lambda>p2x.
         bindE (add32 (y (position b2)) oy) (\<lambda>p2y.
         bindE (sub32 (x (velocity b2)) (x (velocity b1))) (\<lambda>rvx.
         bindE (sub32 (y (velocity b2)) (y (velocity b1))) (\<lambda>rvy.
         bindE (mul32 rvx nx) (\<lambda>rn1.
         bindE (mul32 rvy ny) (\<lambda>rn2.
         bindE (add32 rn1 rn2) (\<lambda>velocityAlongNormal.
           if velocityAlongNormal > 0 then
             Inr (b1\<lparr>position := \<lparr>x = p1x, y = p1y\<rparr>\<rparr>, b2\<lparr>position := \<lparr>x = p2x, y = p2y\<rparr>\<rparr>)
           else
             bindE (add32 1 RESTITUTION_COEFFICIENT) (\<lambda>one_plus.
             bindE (mul32 (- one_plus) velocityAlongNormal) (\<lambda>numerator.
             bindE (div32 1 (mass b1)) (\<lambda>inv1.
             bindE (div32 1 (mass b2)) (\<lambda>inv2.
             bindE (add32 inv1 inv2) (\<lambda>denominator.
             bindE (div32 numerator denominator) (\<lambda>impulse.
             bindE (mul32 impulse nx) (\<lambda>jx.
             bindE (mul32 impulse ny) (\<lambda>jy.
             bindE (div32 jx (mass b1)) (\<lambda>d1x.
             bindE (sub32 (x (velocity b1)) d1x) (\<lambda>v1x.
             bindE (div32 jy (mass b1)) (\<lambda>d1y.
             bindE (sub32 (y (velocity b1)) d1y) (\<lambda>v1y.
             bindE (div32 jx (mass b2)) (\<lambda>d2x.
             bindE (add32 (x (velocity b2)) d2x) (\<lambda>v2x.
             bindE (div32 jy (mass b2)) (\<lambda>d2y.
             bindE (add32 (y (velocity b2)) d2y) (\<lambda>v2y.
               Inr (b1\<lparr>position := \<lparr>x = p1x, y = p1y\<rparr>, velocity := \<lparr>x = v1x, y = v1y\<rparr>\<rparr>,
                    b2\<lparr>position := \<lparr>x = p2x, y = p2y\<rparr>,
                       velocity := \<lparr>x = v2x, y = v2y\<rparr>\<rparr>)))))))))))))))))))))))))))))))))
       else Inr (b1, b2))))))))"

text \<open>The test of the \<open>if\<close> of \<open>CheckBallCollision\<close> as the machine evaluates it: whether the
  call finds the two balls in contact.\<close>

definition contact_test32 :: "Ball \<Rightarrow> Ball \<Rightarrow> error + bool" where
  "contact_test32 b1 b2 =
     bindE (sub32 (x (position b2)) (x (position b1))) (\<lambda>dx.
     bindE (sub32 (y (position b2)) (y (position b1))) (\<lambda>dy.
     bindE (mul32 dx dx) (\<lambda>dxdx.
     bindE (mul32 dy dy) (\<lambda>dydy.
     bindE (add32 dxdx dydy) (\<lambda>distSq.
     bindE (int32 (radius b1 + radius b2)) (\<lambda>min_dist.
     bindE (mul32 min_dist min_dist) (\<lambda>min_dist_sq.
       Inr (distSq < min_dist_sq \<and> distSq > 0))))))))"

section \<open>UpdateFrame in binary32\<close>

text \<open>One axis of \<open>CheckWallCollision\<close>: the coordinate \<open>p\<close> and the velocity component
  \<open>v\<close> of a ball of the given radius, between the walls at 0 and at \<open>limit\<close>. The source
  writes the same block twice, for \<open>x\<close> with \<open>WIDTH\<close> and for \<open>y\<close> with \<open>HEIGHT\<close>.\<close>

definition bounce32 :: "real \<Rightarrow> int \<Rightarrow> int \<Rightarrow> real \<Rightarrow> real \<Rightarrow> error + (real \<times> real)" where
  "bounce32 RESTITUTION_COEFFICIENT limit r p v =
     bindE (int32 r) (\<lambda>rf.
     bindE (sub32 p rf) (\<lambda>low.
       if low \<le> 0 then
         bindE (mul32 v (- RESTITUTION_COEFFICIENT)) (\<lambda>v'. Inr (rf, v'))
       else
         bindE (add32 p rf) (\<lambda>high.
         bindE (int32 limit) (\<lambda>edge.
           if high \<ge> edge then
             bindE (int32 (limit - r)) (\<lambda>p'.
             bindE (mul32 v (- RESTITUTION_COEFFICIENT)) (\<lambda>v'. Inr (p', v')))
           else Inr (p, v)))))"

definition CheckWallCollision32 :: "real \<Rightarrow> Ball \<Rightarrow> error + Ball" where
  "CheckWallCollision32 RESTITUTION_COEFFICIENT ball =
     bindE (bounce32 RESTITUTION_COEFFICIENT WIDTH (radius ball)
              (x (position ball)) (x (velocity ball))) (\<lambda>horizontal.
     bindE (bounce32 RESTITUTION_COEFFICIENT HEIGHT (radius ball)
              (y (position ball)) (y (velocity ball))) (\<lambda>vertical.
       Inr (ball\<lparr>position := \<lparr>x = fst horizontal, y = fst vertical\<rparr>,
                 velocity := \<lparr>x = snd horizontal, y = snd vertical\<rparr>\<rparr>)))"

definition integrate32 :: "real \<Rightarrow> Ball \<Rightarrow> error + Ball" where
  "integrate32 deltaTime ball =
     bindE (mul32 (x (velocity ball)) deltaTime) (\<lambda>sx.
     bindE (add32 (x (position ball)) sx) (\<lambda>px.
     bindE (mul32 (y (velocity ball)) deltaTime) (\<lambda>sy.
     bindE (add32 (y (position ball)) sy) (\<lambda>py.
       Inr (ball\<lparr>position := \<lparr>x = px, y = py\<rparr>\<rparr>)))))"

definition move_step32 :: "real \<Rightarrow> nat \<Rightarrow> Ball list \<Rightarrow> error + Ball list" where
  "move_step32 deltaTime i balls =
     bindE (integrate32 deltaTime (balls ! i)) (\<lambda>ball. Inr (balls[i := ball]))"

definition pair_step32 :: "real \<Rightarrow> nat \<Rightarrow> nat \<Rightarrow> Ball list \<Rightarrow> error + Ball list" where
  "pair_step32 RESTITUTION_COEFFICIENT i j balls =
     bindE (CheckBallCollision32 RESTITUTION_COEFFICIENT (balls ! i) (balls ! j)) (\<lambda>pair.
       Inr (balls[i := fst pair, j := snd pair]))"

definition collide_step32 :: "real \<Rightarrow> nat \<Rightarrow> nat \<Rightarrow> Ball list \<Rightarrow> error + Ball list" where
  "collide_step32 RESTITUTION_COEFFICIENT n i balls =
     bindE (CheckWallCollision32 RESTITUTION_COEFFICIENT (balls ! i)) (\<lambda>ball.
       foldE (pair_step32 RESTITUTION_COEFFICIENT i) [i + 1 ..< n] (balls[i := ball]))"

definition UpdateFrame32 :: "real \<Rightarrow> real \<Rightarrow> Ball list \<Rightarrow> int \<Rightarrow> error + Ball list" where
  "UpdateFrame32 RESTITUTION_COEFFICIENT deltaTime balls numBalls =
     (if int (length balls) < numBalls then Inl OutOfBounds
      else
        bindE (foldE (move_step32 deltaTime) [0 ..< nat numBalls] balls)
          (foldE (collide_step32 RESTITUTION_COEFFICIENT (nat numBalls)) [0 ..< nat numBalls]))"

primrec UpdateFrames32 :: "real \<Rightarrow> real list \<Rightarrow> Ball list \<Rightarrow> int \<Rightarrow> error + Ball list" where
  "UpdateFrames32 RESTITUTION_COEFFICIENT [] balls numBalls = Inr balls"
| "UpdateFrames32 RESTITUTION_COEFFICIENT (deltaTime # deltaTimes) balls numBalls =
     bindE (UpdateFrame32 RESTITUTION_COEFFICIENT deltaTime balls numBalls) (\<lambda>balls'.
       UpdateFrames32 RESTITUTION_COEFFICIENT deltaTimes balls' numBalls)"

text \<open>The array as \<open>UpdateFrame\<close> has it when the second loop reaches ball \<open>k\<close>: every ball
  has moved and the balls before \<open>k\<close> have had their wall check and their collisions.\<close>

definition state_before32 :: "real \<Rightarrow> real \<Rightarrow> Ball list \<Rightarrow> int \<Rightarrow> nat \<Rightarrow> error + Ball list" where
  "state_before32 RESTITUTION_COEFFICIENT deltaTime balls numBalls k =
     bindE (foldE (move_step32 deltaTime) [0 ..< nat numBalls] balls)
       (foldE (collide_step32 RESTITUTION_COEFFICIENT (nat numBalls)) [0 ..< k])"

text \<open>Ball \<open>k\<close> is untouched after its wall check in a step when none of the calls
  \<open>CheckBallCollision(&balls[k], &balls[j])\<close> with \<open>j > k\<close> of that step finds contact.
  As long as none does, the array stays as the wall check of ball \<open>k\<close> left it, so each of
  these calls tests the wall-checked ball \<open>k\<close> against ball \<open>j\<close> of that array.\<close>

definition untouched32 :: "real \<Rightarrow> real \<Rightarrow> Ball list \<Rightarrow> int \<Rightarrow> nat \<Rightarrow> bool" where
  "untouched32 RESTITUTION_COEFFICIENT deltaTime balls numBalls k \<longleftrightarrow>
     (case state_before32 RESTITUTION_COEFFICIENT deltaTime balls numBalls k of
        Inl err \<Rightarrow> False
      | Inr s \<Rightarrow>
          (case CheckWallCollision32 RESTITUTION_COEFFICIENT (s ! k) of
             Inl err \<Rightarrow> False
           | Inr ball \<Rightarrow>
               list_all (\<lambda>j. contact_test32 ball (s ! j) = Inr False) [k + 1 ..< nat numBalls]))"

section \<open>Predicates for stating the properties\<close>

text \<open>The fields of a ball that the simulation is not meant to change.\<close>

definition static_part :: "Ball \<Rightarrow> int \<times> real \<times> Color" where
  "static_part ball = (radius ball, mass ball, color ball)"

text \<open>A ball as \<open>InitBalls\<close> makes it: the radius within its bounds, the mass half the
  radius.\<close>

definition well_formed :: "Ball \<Rightarrow> bool" where
  "well_formed ball \<longleftrightarrow>
     MIN_BALL_RADIUS \<le> radius ball \<and> radius ball \<le> MAX_BALL_RADIUS \<and>
     mass ball = real_of_int (radius ball) / 2"

section \<open>Results of fallible steps\<close>

lemma bindE_Inr: "bindE (Inr v) f = f v"
  by (simp add: bindE_def)

lemma bindE_eq_Inr: "bindE m f = Inr r \<longleftrightarrow> (\<exists>v. m = Inr v \<and> f v = Inr r)"
  by (cases m) (simp_all add: bindE_def)

section \<open>The three cases of CheckBallCollision\<close>

lemma CheckBallCollision_no_contact:
  assumes "\<not> in_contact b1 b2"
  shows "CheckBallCollision e b1 b2 = Inr (b1, b2)"
proof -
  have "\<not> (distSq b1 b2 < min_dist b1 b2 * min_dist b1 b2 \<and> distSq b1 b2 > 0)"
    using assms unfolding in_contact_def .
  then have "\<not> ((x (position b2) - x (position b1)) * (x (position b2) - x (position b1)) +
       (y (position b2) - y (position b1)) * (y (position b2) - y (position b1))
       < real_of_int (radius b1 + radius b2) * real_of_int (radius b1 + radius b2) \<and>
     (x (position b2) - x (position b1)) * (x (position b2) - x (position b1)) +
       (y (position b2) - y (position b1)) * (y (position b2) - y (position b1)) > 0)"
    unfolding distSq_def min_dist_def .
  then show ?thesis
    by (simp only: CheckBallCollision_def Let_def if_False)
qed

lemma sqrt_distSq_nonzero: "in_contact b1 b2 \<Longrightarrow> sqrt (distSq b1 b2) \<noteq> 0"
  by (simp add: in_contact_def)

lemma CheckBallCollision_contact:
  assumes "in_contact b1 b2"
  shows "CheckBallCollision e b1 b2 =
     (if velocityAlongNormal b1 b2 > 0 then
        Inr (b1\<lparr>position := corrected1 b1 b2\<rparr>, b2\<lparr>position := corrected2 b1 b2\<rparr>)
      else
        bindE (fdiv 1 (mass b1)) (\<lambda>inv1.
        bindE (fdiv 1 (mass b2)) (\<lambda>inv2.
        bindE (fdiv (- (1 + e) * velocityAlongNormal b1 b2) (inv1 + inv2)) (\<lambda>impulse.
        bindE (fdiv (impulse * x (normal b1 b2)) (mass b1)) (\<lambda>d1x.
        bindE (fdiv (impulse * y (normal b1 b2)) (mass b1)) (\<lambda>d1y.
        bindE (fdiv (impulse * x (normal b1 b2)) (mass b2)) (\<lambda>d2x.
        bindE (fdiv (impulse * y (normal b1 b2)) (mass b2)) (\<lambda>d2y.
          Inr (b1\<lparr>position := corrected1 b1 b2,
                   velocity := \<lparr>x = x (velocity b1) - d1x, y = y (velocity b1) - d1y\<rparr>\<rparr>,
               b2\<lparr>position := corrected2 b1 b2,
                   velocity := \<lparr>x = x (velocity b2) + d2x, y = y (velocity b2) + d2y\<rparr>\<rparr>)))))))))"
proof -
  have c: "distSq b1 b2 < min_dist b1 b2 * min_dist b1 b2 \<and> distSq b1 b2 > 0"
    using assms by (simp only: in_contact_def)
  have nz: "sqrt (distSq b1 b2) \<noteq> 0"
    using assms by (rule sqrt_distSq_nonzero)
  have dvx: "fdiv (x (position b2) - x (position b1)) (sqrt (distSq b1 b2)) = Inr (x (normal b1 b2))"
    using nz by (simp add: fdiv_def normal_def)
  have dvy: "fdiv (y (position b2) - y (position b1)) (sqrt (distSq b1 b2)) = Inr (y (normal b1 b2))"
    using nz by (simp add: fdiv_def normal_def)
  have "CheckBallCollision e b1 b2 =
     (if distSq b1 b2 < min_dist b1 b2 * min_dist b1 b2 \<and> distSq b1 b2 > 0 then
          (let distance = sqrt (distSq b1 b2) in
           bindE (fdiv (x (position b2) - x (position b1)) distance) (\<lambda>nx.
           bindE (fdiv (y (position b2) - y (position b1)) distance) (\<lambda>ny.
             (let overlap = 0.5 * (min_dist b1 b2 - distance);
                  p1 = \<lparr>x = x (position b1) - overlap * nx, y = y (position b1) - overlap * ny\<rparr>;
                  p2 = \<lparr>x = x (position b2) + overlap * nx, y = y (position b2) + overlap * ny\<rparr>;
                  relativeVelocity = \<lparr>x = x (velocity b2) - x (velocity b1),
                                      y = y (velocity b2) - y (velocity b1)\<rparr>;
                  velocityAlongNormal = x relativeVelocity * nx + y relativeVelocity * ny
              in
                if velocityAlongNormal > 0 then
                  Inr (b1\<lparr>position := p1\<rparr>, b2\<lparr>position := p2\<rparr>)
                else
                  bindE (fdiv 1 (mass b1)) (\<lambda>inv1.
                  bindE (fdiv 1 (mass b2)) (\<lambda>inv2.
                  bindE (fdiv (- (1 + e) * velocityAlongNormal) (inv1 + inv2)) (\<lambda>impulse.
                  bindE (fdiv (impulse * nx) (mass b1)) (\<lambda>d1x.
                  bindE (fdiv (impulse * ny) (mass b1)) (\<lambda>d1y.
                  bindE (fdiv (impulse * nx) (mass b2)) (\<lambda>d2x.
                  bindE (fdiv (impulse * ny) (mass b2)) (\<lambda>d2y.
                    Inr (b1\<lparr>position := p1,
                             velocity := \<lparr>x = x (velocity b1) - d1x, y = y (velocity b1) - d1y\<rparr>\<rparr>,
                         b2\<lparr>position := p2,
                             velocity := \<lparr>x = x (velocity b2) + d2x, y = y (velocity b2) + d2y\<rparr>\<rparr>))))))))))))
        else Inr (b1, b2))"
    unfolding CheckBallCollision_def Let_def distSq_def min_dist_def by (rule refl)
  also have "\<dots> = 
     (if velocityAlongNormal b1 b2 > 0 then
        Inr (b1\<lparr>position := corrected1 b1 b2\<rparr>, b2\<lparr>position := corrected2 b1 b2\<rparr>)
      else
        bindE (fdiv 1 (mass b1)) (\<lambda>inv1.
        bindE (fdiv 1 (mass b2)) (\<lambda>inv2.
        bindE (fdiv (- (1 + e) * velocityAlongNormal b1 b2) (inv1 + inv2)) (\<lambda>impulse.
        bindE (fdiv (impulse * x (normal b1 b2)) (mass b1)) (\<lambda>d1x.
        bindE (fdiv (impulse * y (normal b1 b2)) (mass b1)) (\<lambda>d1y.
        bindE (fdiv (impulse * x (normal b1 b2)) (mass b2)) (\<lambda>d2x.
        bindE (fdiv (impulse * y (normal b1 b2)) (mass b2)) (\<lambda>d2y.
          Inr (b1\<lparr>position := corrected1 b1 b2,
                   velocity := \<lparr>x = x (velocity b1) - d1x, y = y (velocity b1) - d1y\<rparr>\<rparr>,
               b2\<lparr>position := corrected2 b1 b2,
                   velocity := \<lparr>x = x (velocity b2) + d2x, y = y (velocity b2) + d2y\<rparr>\<rparr>)))))))))"
    unfolding if_P[OF c] Let_def dvx dvy
    by (simp only: bindE_def sum.case velocityAlongNormal_def corrected1_def corrected2_def
          overlap_def Vector2.simps)
  finally show ?thesis .
qed

lemma CheckBallCollision_separating:
  assumes "in_contact b1 b2" "velocityAlongNormal b1 b2 > 0"
  shows "CheckBallCollision e b1 b2 =
           Inr (b1\<lparr>position := corrected1 b1 b2\<rparr>, b2\<lparr>position := corrected2 b1 b2\<rparr>)"
  using assms(2) by (simp only: CheckBallCollision_contact[OF assms(1)] if_True)

lemma inverse_mass_sum_nonzero:
  fixes m1 m2 :: real
  assumes "m1 > 0" "m2 > 0"
  shows "1 / m1 + 1 / m2 \<noteq> 0"
proof -
  have "1 / m1 > 0" "1 / m2 > 0" using assms by simp_all
  then show ?thesis by linarith
qed

lemma CheckBallCollision_impulse:
  assumes "in_contact b1 b2" "\<not> velocityAlongNormal b1 b2 > 0"
    and "mass b1 \<noteq> 0" "mass b2 \<noteq> 0" "1 / mass b1 + 1 / mass b2 \<noteq> 0"
  shows "CheckBallCollision e b1 b2 =
           Inr (b1\<lparr>position := corrected1 b1 b2,
                    velocity := \<lparr>x = x (velocity b1) - impulse e b1 b2 * x (normal b1 b2) / mass b1,
                                 y = y (velocity b1) - impulse e b1 b2 * y (normal b1 b2) / mass b1\<rparr>\<rparr>,
                b2\<lparr>position := corrected2 b1 b2,
                    velocity := \<lparr>x = x (velocity b2) + impulse e b1 b2 * x (normal b1 b2) / mass b2,
                                 y = y (velocity b2) + impulse e b1 b2 * y (normal b1 b2) / mass b2\<rparr>\<rparr>)"
  using assms(2-)
  by (simp add: CheckBallCollision_contact[OF assms(1)] bindE_def fdiv_def impulse_def)




lemma CheckBallCollision_defined:
  assumes "mass b1 > 0" "mass b2 > 0"
  shows "\<exists>b1' b2'. CheckBallCollision e b1 b2 = Inr (b1', b2')"
proof (cases "in_contact b1 b2")
  case False
  then show ?thesis by (simp add: CheckBallCollision_no_contact)
next
  case True
  show ?thesis
  proof (cases "velocityAlongNormal b1 b2 > 0")
    case True
    with \<open>in_contact b1 b2\<close> show ?thesis by (simp add: CheckBallCollision_separating)
  next
    case False
    have "1 / mass b1 + 1 / mass b2 \<noteq> 0"
      using assms by (rule inverse_mass_sum_nonzero)
    with \<open>in_contact b1 b2\<close> False assms show ?thesis
      by (simp add: CheckBallCollision_impulse)
  qed
qed



section \<open>Properties of one collision\<close>

lemma sqrt_1521: "sqrt 1521 = 39"
  using real_sqrt_abs[of 39] by simp

lemma sqrt_1600: "sqrt 1600 = 40"
  using real_sqrt_abs[of 40] by simp

text \<open>Claim C1. For two balls with strictly positive masses and distinct centers,
  \<open>CheckBallCollision\<close> returns, and the total momentum \<open>mass1 * velocity1 + mass2 * velocity2\<close>
  is the same after the call as before it, in both components and for every restitution
  coefficient.\<close>

theorem momentum_conserved:
  assumes "mass b1 > 0" and "mass b2 > 0" and "position b1 \<noteq> position b2"
  shows "\<exists>b1' b2'. CheckBallCollision e b1 b2 = Inr (b1', b2') \<and>
           mass b1' * x (velocity b1') + mass b2' * x (velocity b2')
             = mass b1 * x (velocity b1) + mass b2 * x (velocity b2) \<and>
           mass b1' * y (velocity b1') + mass b2' * y (velocity b2')
             = mass b1 * y (velocity b1) + mass b2 * y (velocity b2)"
proof (cases "in_contact b1 b2")
  case False
  then show ?thesis by (simp add: CheckBallCollision_no_contact)
next
  case True
  show ?thesis
  proof (cases "velocityAlongNormal b1 b2 > 0")
    case True
    with \<open>in_contact b1 b2\<close> show ?thesis by (simp add: CheckBallCollision_separating)
  next
    case False
    have K: "1 / mass b1 + 1 / mass b2 \<noteq> 0"
      using assms(1,2) by (rule inverse_mass_sum_nonzero)
    have n1: "mass b1 \<noteq> 0" and n2: "mass b2 \<noteq> 0" using assms by simp_all
    show ?thesis
      unfolding CheckBallCollision_impulse[OF \<open>in_contact b1 b2\<close> False n1 n2 K]
      using n1 n2 by (simp add: field_simps)
  qed
qed

theorem momentum_conserved_witness:
  "\<exists>b1' b2'.
     CheckBallCollision 1
       \<lparr>position = \<lparr>x = 0, y = 0\<rparr>, velocity = \<lparr>x = 50, y = 0\<rparr>, radius = 20, mass = 10,
        color = Color 255 0 0 255\<rparr>
       \<lparr>position = \<lparr>x = 39, y = 0\<rparr>, velocity = \<lparr>x = - 50, y = 0\<rparr>, radius = 20, mass = 10,
        color = Color 0 0 255 255\<rparr> = Inr (b1', b2') \<and>
     mass b1' * x (velocity b1') + mass b2' * x (velocity b2') = 0 \<and>
     mass b1' * y (velocity b1') + mass b2' * y (velocity b2') = 0"
  using momentum_conserved[of
       "\<lparr>position = \<lparr>x = 0, y = 0\<rparr>, velocity = \<lparr>x = 50, y = 0\<rparr>, radius = 20, mass = 10,
        color = Color 255 0 0 255\<rparr>"
       "\<lparr>position = \<lparr>x = 39, y = 0\<rparr>, velocity = \<lparr>x = - 50, y = 0\<rparr>, radius = 20, mass = 10,
        color = Color 0 0 255 255\<rparr>" 1]
  by simp

text \<open>Claim C5. Two balls of radius 20 and mass 10, the first at any point, the second 39
  units to its right, with velocities (50, 0) and (-50, 0) and restitution 1: one call of
  \<open>CheckBallCollision\<close> gives the velocities (-50, 0) and (50, 0), moves each ball half a
  unit away from the other, and leaves the centers at distance 40.\<close>

theorem head_on_scenario:
  "CheckBallCollision 1
     \<lparr>position = \<lparr>x = px, y = py\<rparr>, velocity = \<lparr>x = 50, y = 0\<rparr>, radius = 20, mass = 10,
      color = c1\<rparr>
     \<lparr>position = \<lparr>x = px + 39, y = py\<rparr>, velocity = \<lparr>x = - 50, y = 0\<rparr>, radius = 20, mass = 10,
      color = c2\<rparr>
   = Inr (\<lparr>position = \<lparr>x = px - 1 / 2, y = py\<rparr>, velocity = \<lparr>x = - 50, y = 0\<rparr>, radius = 20,
           mass = 10, color = c1\<rparr>,
          \<lparr>position = \<lparr>x = px + 39 + 1 / 2, y = py\<rparr>, velocity = \<lparr>x = 50, y = 0\<rparr>, radius = 20,
           mass = 10, color = c2\<rparr>) \<and>
   sqrt (distSq
          \<lparr>position = \<lparr>x = px - 1 / 2, y = py\<rparr>, velocity = \<lparr>x = - 50, y = 0\<rparr>, radius = 20,
           mass = 10, color = c1\<rparr>
          \<lparr>position = \<lparr>x = px + 39 + 1 / 2, y = py\<rparr>, velocity = \<lparr>x = 50, y = 0\<rparr>, radius = 20,
           mass = 10, color = c2\<rparr>) = 40"
  by (simp add: CheckBallCollision_def Let_def fdiv_def bindE_def distSq_def sqrt_1521 sqrt_1600)

text \<open>The same two balls with the second one 39 units to the left of the first are not
  in a head-on collision: they move apart, so only the positions are corrected.\<close>

lemma receding_scenario:
  "CheckBallCollision 1
     \<lparr>position = \<lparr>x = px, y = py\<rparr>, velocity = \<lparr>x = 50, y = 0\<rparr>, radius = 20, mass = 10,
      color = c1\<rparr>
     \<lparr>position = \<lparr>x = px - 39, y = py\<rparr>, velocity = \<lparr>x = - 50, y = 0\<rparr>, radius = 20, mass = 10,
      color = c2\<rparr>
   = Inr (\<lparr>position = \<lparr>x = px + 1 / 2, y = py\<rparr>, velocity = \<lparr>x = 50, y = 0\<rparr>, radius = 20,
           mass = 10, color = c1\<rparr>,
          \<lparr>position = \<lparr>x = px - 39 - 1 / 2, y = py\<rparr>, velocity = \<lparr>x = - 50, y = 0\<rparr>, radius = 20,
           mass = 10, color = c2\<rparr>)"
  by (simp add: CheckBallCollision_def Let_def fdiv_def bindE_def sqrt_1521)

text \<open>Claim C6. A ball at (5, 300) with radius 15 and velocity (-100, 0), in the window of
  width 800: \<open>CheckWallCollision\<close> sets \<open>position.x\<close> to 15 and \<open>velocity.x\<close> to 100 times the
  restitution coefficient, and changes nothing else.\<close>

theorem wall_scenario:
  "CheckWallCollision e
     \<lparr>position = \<lparr>x = 5, y = 300\<rparr>, velocity = \<lparr>x = - 100, y = 0\<rparr>, radius = 15, mass = m,
      color = c\<rparr>
   = \<lparr>position = \<lparr>x = 15, y = 300\<rparr>, velocity = \<lparr>x = 100 * e, y = 0\<rparr>, radius = 15, mass = m,
      color = c\<rparr>"
  by (simp add: CheckWallCollision_def Let_def WIDTH_def HEIGHT_def)

text \<open>The total that \<open>CalculateTotalKineticEnergy\<close> reports for an array of two balls is
  the sum of their kinetic energies.\<close>

lemma CalculateTotalKineticEnergy_pair:
  "CalculateTotalKineticEnergy [b1, b2] 2 = Inr (kineticEnergy b1 + kineticEnergy b2)"
proof -
  have "[0 ..< 2] = [0, Suc 0]" by (simp add: upt_rec)
  then show ?thesis by (simp add: CalculateTotalKineticEnergy_def)
qed





text \<open>Claim C8. For two balls in contact whose velocity along the normal is strictly
  positive, \<open>CheckBallCollision\<close> leaves both velocities unchanged and still moves both
  positions: the first ball by \<open>overlap\<close> against the normal, the second by \<open>overlap\<close> along
  it.\<close>

theorem separating_keeps_velocity:
  assumes "in_contact b1 b2" and "velocityAlongNormal b1 b2 > 0"
  shows "\<exists>b1' b2'. CheckBallCollision e b1 b2 = Inr (b1', b2') \<and>
           velocity b1' = velocity b1 \<and> velocity b2' = velocity b2 \<and>
           position b1' = \<lparr>x = x (position b1) - overlap b1 b2 * x (normal b1 b2),
                            y = y (position b1) - overlap b1 b2 * y (normal b1 b2)\<rparr> \<and>
           position b2' = \<lparr>x = x (position b2) + overlap b1 b2 * x (normal b1 b2),
                            y = y (position b2) + overlap b1 b2 * y (normal b1 b2)\<rparr>"
  by (simp add: CheckBallCollision_separating[OF assms] corrected1_def corrected2_def)

theorem separating_keeps_velocity_witness:
  "\<exists>b1' b2'.
     CheckBallCollision 1
       \<lparr>position = \<lparr>x = 0, y = 0\<rparr>, velocity = \<lparr>x = - 50, y = 0\<rparr>, radius = 20, mass = 10,
        color = Color 255 0 0 255\<rparr>
       \<lparr>position = \<lparr>x = 39, y = 0\<rparr>, velocity = \<lparr>x = 50, y = 0\<rparr>, radius = 20, mass = 10,
        color = Color 0 0 255 255\<rparr> = Inr (b1', b2') \<and>
     velocity b1' = \<lparr>x = - 50, y = 0\<rparr> \<and> velocity b2' = \<lparr>x = 50, y = 0\<rparr> \<and>
     position b1' = \<lparr>x = - (1 / 2), y = 0\<rparr> \<and> position b2' = \<lparr>x = 39 + 1 / 2, y = 0\<rparr>"
  using separating_keeps_velocity[of
       "\<lparr>position = \<lparr>x = 0, y = 0\<rparr>, velocity = \<lparr>x = - 50, y = 0\<rparr>, radius = 20, mass = 10,
        color = Color 255 0 0 255\<rparr>"
       "\<lparr>position = \<lparr>x = 39, y = 0\<rparr>, velocity = \<lparr>x = 50, y = 0\<rparr>, radius = 20, mass = 10,
        color = Color 0 0 255 255\<rparr>" 1]
  by (simp add: in_contact_def distSq_def min_dist_def velocityAlongNormal_def normal_def
        overlap_def sqrt_1521)

text \<open>Claim C10, amended. With exact arithmetic in the embedding, for two balls in contact,
  whenever \<open>CheckBallCollision\<close> returns, the sum of the two positions is the same after the
  call as before it, in both components: the first ball is moved by \<open>overlap\<close> (half of the
  overlap of the two discs) against the normal, the second by the same amount along it. The
  call returns when both masses are positive. In binary32 the four updates are rounded one by
  one and the sum can change, as the section on one collision in binary32 shows.\<close>

theorem midpoint_preserved:
  "(in_contact b1 b2 \<and> 0 < mass b1 \<and> 0 < mass b2 \<longrightarrow>
      (\<exists>b1' b2'. CheckBallCollision e b1 b2 = Inr (b1', b2'))) \<and>
   (\<forall>b1' b2'. in_contact b1 b2 \<and> CheckBallCollision e b1 b2 = Inr (b1', b2') \<longrightarrow>
      x (position b1') + x (position b2') = x (position b1) + x (position b2) \<and>
      y (position b1') + y (position b2') = y (position b1) + y (position b2) \<and>
      x (position b1') = x (position b1) - overlap b1 b2 * x (normal b1 b2) \<and>
      y (position b1') = y (position b1) - overlap b1 b2 * y (normal b1 b2) \<and>
      x (position b2') = x (position b2) + overlap b1 b2 * x (normal b1 b2) \<and>
      y (position b2') = y (position b2) + overlap b1 b2 * y (normal b1 b2))"
proof (rule conjI)
  show "in_contact b1 b2 \<and> 0 < mass b1 \<and> 0 < mass b2 \<longrightarrow>
          (\<exists>b1' b2'. CheckBallCollision e b1 b2 = Inr (b1', b2'))"
    using CheckBallCollision_defined by blast
next
  have "x (position b1') + x (position b2') = x (position b1) + x (position b2) \<and>
      y (position b1') + y (position b2') = y (position b1) + y (position b2) \<and>
      x (position b1') = x (position b1) - overlap b1 b2 * x (normal b1 b2) \<and>
      y (position b1') = y (position b1) - overlap b1 b2 * y (normal b1 b2) \<and>
      x (position b2') = x (position b2) + overlap b1 b2 * x (normal b1 b2) \<and>
      y (position b2') = y (position b2) + overlap b1 b2 * y (normal b1 b2)"
    if c: "in_contact b1 b2" and r: "CheckBallCollision e b1 b2 = Inr (b1', b2')" for b1' b2'
  proof -
    have p: "position b1' = corrected1 b1 b2 \<and> position b2' = corrected2 b1 b2"
      using r unfolding CheckBallCollision_contact[OF c]
      by (auto simp add: bindE_eq_Inr split: if_splits)
    then show ?thesis by (simp add: corrected1_def corrected2_def)
  qed
  then show "\<forall>b1' b2'. in_contact b1 b2 \<and> CheckBallCollision e b1 b2 = Inr (b1', b2') \<longrightarrow>
      x (position b1') + x (position b2') = x (position b1) + x (position b2) \<and>
      y (position b1') + y (position b2') = y (position b1) + y (position b2) \<and>
      x (position b1') = x (position b1) - overlap b1 b2 * x (normal b1 b2) \<and>
      y (position b1') = y (position b1) - overlap b1 b2 * y (normal b1 b2) \<and>
      x (position b2') = x (position b2) + overlap b1 b2 * x (normal b1 b2) \<and>
      y (position b2') = y (position b2) + overlap b1 b2 * y (normal b1 b2)"
    by blast
qed

theorem midpoint_preserved_witness:
  "\<exists>b1' b2'.
     CheckBallCollision 1
       \<lparr>position = \<lparr>x = 0, y = 0\<rparr>, velocity = \<lparr>x = 50, y = 0\<rparr>, radius = 20, mass = 10,
        color = Color 255 0 0 255\<rparr>
       \<lparr>position = \<lparr>x = 39, y = 0\<rparr>, velocity = \<lparr>x = - 50, y = 0\<rparr>, radius = 20, mass = 10,
        color = Color 0 0 255 255\<rparr> = Inr (b1', b2') \<and>
     x (position b1') + x (position b2') = 39 \<and> y (position b1') + y (position b2') = 0 \<and>
     x (position b1') = - (1 / 2) \<and> y (position b1') = 0 \<and>
     x (position b2') = 39 + 1 / 2 \<and> y (position b2') = 0"
  using midpoint_preserved[of
       "\<lparr>position = \<lparr>x = 0, y = 0\<rparr>, velocity = \<lparr>x = 50, y = 0\<rparr>, radius = 20, mass = 10,
        color = Color 255 0 0 255\<rparr>"
       "\<lparr>position = \<lparr>x = 39, y = 0\<rparr>, velocity = \<lparr>x = - 50, y = 0\<rparr>, radius = 20, mass = 10,
        color = Color 0 0 255 255\<rparr>" 1]
  by (auto simp add: in_contact_def distSq_def min_dist_def normal_def overlap_def sqrt_1521)

section \<open>UpdateFrame keeps radius, mass and color\<close>

lemma CheckBallCollision_static:
  assumes "CheckBallCollision e b1 b2 = Inr (b1', b2')"
  shows "static_part b1' = static_part b1 \<and> static_part b2' = static_part b2"
proof (cases "in_contact b1 b2")
  case False
  with assms show ?thesis by (simp add: CheckBallCollision_no_contact)
next
  case True
  from assms show ?thesis
    unfolding CheckBallCollision_contact[OF True]
    by (auto simp add: bindE_def fdiv_def static_part_def split: if_splits)
qed

lemma CheckWallCollision_static: "static_part (CheckWallCollision e ball) = static_part ball"
  by (simp add: CheckWallCollision_def static_part_def Let_def)

lemma integrate_static: "static_part (integrate deltaTime ball) = static_part ball"
  by (simp add: integrate_def static_part_def)

lemma map_static_update:
  assumes "i < length bs \<Longrightarrow> static_part v = static_part (bs ! i)"
  shows "map static_part (bs[i := v]) = map static_part bs"
proof (cases "i < length bs")
  case True
  then have "(map static_part bs)[i := static_part (bs ! i)] = map static_part bs"
    by (simp add: list_update_same_conv)
  then show ?thesis using assms True by (simp add: map_update)
next
  case False
  then show ?thesis by (simp add: list_update_beyond)
qed

lemma pair_step_static:
  assumes "pair_step e i j bs = Inr bs'"
  shows "map static_part bs' = map static_part bs"
proof -
  obtain b1 b2 where r: "CheckBallCollision e (bs ! i) (bs ! j) = Inr (b1, b2)"
      and bs': "bs' = bs[i := b1, j := b2]"
    using assms by (auto simp add: pair_step_def split: sum.splits)
  have s: "static_part b1 = static_part (bs ! i)" "static_part b2 = static_part (bs ! j)"
    using CheckBallCollision_static[OF r] by simp_all
  have a: "map static_part (bs[i := b1]) = map static_part bs"
    using s(1) by (simp add: map_static_update)
  have "static_part b2 = static_part (bs[i := b1] ! j)" if "j < length (bs[i := b1])"
  proof -
    have "static_part (bs[i := b1] ! j) = map static_part (bs[i := b1]) ! j"
      using that by simp
    also have "\<dots> = static_part (bs ! j)" using that by (simp only: a nth_map length_list_update)
    finally show ?thesis using s(2) by simp
  qed
  then have "map static_part (bs[i := b1, j := b2]) = map static_part (bs[i := b1])"
    by (rule map_static_update)
  then show ?thesis by (simp add: bs' a)
qed

lemma foldE_preserves:
  assumes "\<And>k s s'. k \<in> set ks \<Longrightarrow> f k s = Inr s' \<Longrightarrow> g s' = g s"
    and "foldE f ks s = Inr s'"
  shows "g s' = g s"
  using assms
proof (induction ks arbitrary: s)
  case Nil
  then show ?case by simp
next
  case (Cons k rest)
  from Cons.prems(2) obtain s1 where s1: "f k s = Inr s1" and r: "foldE f rest s1 = Inr s'"
    by (auto split: sum.splits)
  have "g s1 = g s" using Cons.prems(1)[of k s s1] s1 by simp
  moreover have "g s' = g s1"
  proof (rule Cons.IH[OF _ r])
    fix j t t' assume "j \<in> set rest" "f j t = Inr t'"
    then show "g t' = g t" using Cons.prems(1)[of j t t'] by simp
  qed
  ultimately show ?case by simp
qed

lemma collide_step_static:
  assumes "collide_step e n i bs = Inr bs'"
  shows "map static_part bs' = map static_part bs"
proof -
  have "map static_part bs' = map static_part (bs[i := CheckWallCollision e (bs ! i)])"
    using assms unfolding collide_step_def
    by (rule foldE_preserves[where g = "map static_part", rotated]) (rule pair_step_static)
  then show ?thesis by (simp add: map_static_update CheckWallCollision_static)
qed

lemma integrate_loop_static:
  "map static_part (fold (\<lambda>i bs. bs[i := integrate deltaTime (bs ! i)]) is bs) = map static_part bs"
  by (induction "is" arbitrary: bs) (simp_all add: map_static_update integrate_static)

lemma UpdateFrame_static:
  assumes "UpdateFrame e deltaTime balls numBalls = Inr balls'"
  shows "map static_part balls' = map static_part balls"
proof -
  let ?moved = "fold (\<lambda>i bs. bs[i := integrate deltaTime (bs ! i)]) [0 ..< nat numBalls] balls"
  have "foldE (collide_step e (nat numBalls)) [0 ..< nat numBalls] ?moved = Inr balls'"
    using assms by (simp add: UpdateFrame_def Let_def split: if_splits)
  then have "map static_part balls' = map static_part ?moved"
    by (rule foldE_preserves[where g = "map static_part", rotated]) (rule collide_step_static)
  then show ?thesis by (simp add: integrate_loop_static)
qed

lemma foldE_total:
  assumes "I s"
    and "\<And>k t. k \<in> set ks \<Longrightarrow> I t \<Longrightarrow> \<exists>t'. f k t = Inr t' \<and> I t'"
  shows "\<exists>s'. foldE f ks s = Inr s' \<and> I s'"
  using assms
proof (induction ks arbitrary: s)
  case Nil
  then show ?case by simp
next
  case (Cons k rest)
  obtain s1 where s1: "f k s = Inr s1" and I1: "I s1"
    using Cons.prems(2)[of k s] Cons.prems(1) by auto
  have "\<exists>s'. foldE f rest s1 = Inr s' \<and> I s'"
  proof (rule Cons.IH[OF I1])
    fix j t assume "j \<in> set rest" "I t"
    then show "\<exists>t'. f j t = Inr t' \<and> I t'" using Cons.prems(2)[of j t] by simp
  qed
  then show ?case by (simp add: s1)
qed

lemma static_part_nth:
  assumes "map static_part bs = map static_part balls" and "k < length balls"
  shows "static_part (bs ! k) = static_part (balls ! k)"
proof -
  have "length bs = length balls" using assms(1) by (rule map_eq_imp_length_eq)
  then have "static_part (bs ! k) = map static_part bs ! k" using assms(2) by simp
  also have "\<dots> = static_part (balls ! k)" using assms by simp
  finally show ?thesis .
qed

lemma pair_step_total:
  assumes "mass (bs ! i) > 0" and "mass (bs ! j) > 0"
  shows "\<exists>bs'. pair_step e i j bs = Inr bs'"
  using CheckBallCollision_defined[OF assms, of e] by (auto simp add: pair_step_def)

lemma collide_step_total:
  assumes inv: "map static_part bs = map static_part balls"
    and n: "n \<le> length balls" and i: "i < n"
    and m: "\<And>k. k < n \<Longrightarrow> mass (balls ! k) > 0"
  shows "\<exists>bs'. collide_step e n i bs = Inr bs' \<and> map static_part bs' = map static_part balls"
  unfolding collide_step_def
proof (rule foldE_total[where I = "\<lambda>t. map static_part t = map static_part balls"])
  show "map static_part (bs[i := CheckWallCollision e (bs ! i)]) = map static_part balls"
    using inv by (simp add: map_static_update CheckWallCollision_static)
next
  fix j t
  assume j: "j \<in> set [i + 1..<n]" and t: "map static_part t = map static_part balls"
  have "static_part (t ! i) = static_part (balls ! i)" "static_part (t ! j) = static_part (balls ! j)"
    using static_part_nth[OF t] i j n by simp_all
  then have "mass (t ! i) > 0" "mass (t ! j) > 0"
    using m[of i] m[of j] i j by (simp_all add: static_part_def)
  then obtain t' where t': "pair_step e i j t = Inr t'"
    using pair_step_total by blast
  then show "\<exists>t'. pair_step e i j t = Inr t' \<and> map static_part t' = map static_part balls"
    using pair_step_static[OF t'] t by simp
qed

lemma UpdateFrame_total:
  assumes n: "numBalls \<le> int (length balls)"
    and m: "\<And>k. k < nat numBalls \<Longrightarrow> mass (balls ! k) > 0"
  shows "\<exists>balls'. UpdateFrame e deltaTime balls numBalls = Inr balls'"
proof -
  let ?moved = "fold (\<lambda>i bs. bs[i := integrate deltaTime (bs ! i)]) [0 ..< nat numBalls] balls"
  have len: "nat numBalls \<le> length balls" using n by simp
  have "\<exists>s'. foldE (collide_step e (nat numBalls)) [0 ..< nat numBalls] ?moved = Inr s' \<and>
          map static_part s' = map static_part balls"
  proof (rule foldE_total[where I = "\<lambda>t. map static_part t = map static_part balls"])
    show "map static_part ?moved = map static_part balls" by (rule integrate_loop_static)
  next
    fix k t
    assume "k \<in> set [0..<nat numBalls]" and "map static_part t = map static_part balls"
    then show "\<exists>t'. collide_step e (nat numBalls) k t = Inr t' \<and>
                 map static_part t' = map static_part balls"
      using collide_step_total[of t balls "nat numBalls" k e] len m by simp
  qed
  then show ?thesis using n by (auto simp add: UpdateFrame_def Let_def)
qed

text \<open>Claim C9. \<open>UpdateFrame\<close> never changes the radius, the mass or the color of a ball:
  for every array, ball count and frame time, whenever the step returns, the three fields of
  every ball are those from before the step (and the array has the same length). The step does
  return when the ball count is within the array and the masses of the balls it handles are
  positive.\<close>

theorem UpdateFrame_keeps_radius_mass_color:
  "(numBalls \<le> int (length balls) \<and> list_all (\<lambda>ball. 0 < mass ball) (take (nat numBalls) balls)
      \<longrightarrow> (\<exists>balls'. UpdateFrame e deltaTime balls numBalls = Inr balls')) \<and>
   (\<forall>balls'. UpdateFrame e deltaTime balls numBalls = Inr balls' \<longrightarrow>
      map radius balls' = map radius balls \<and> map mass balls' = map mass balls \<and>
      map color balls' = map color balls)"
proof (intro conjI impI allI)
  assume a: "numBalls \<le> int (length balls) \<and>
             list_all (\<lambda>ball. 0 < mass ball) (take (nat numBalls) balls)"
  have "mass (balls ! k) > 0" if "k < nat numBalls" for k
  proof -
    have "nat numBalls \<le> length balls" using a by linarith
    then have "k < length (take (nat numBalls) balls)" using that by simp
    then have "0 < mass (take (nat numBalls) balls ! k)"
      using a by (simp add: list_all_length)
    then show ?thesis using that by simp
  qed
  then show "\<exists>balls'. UpdateFrame e deltaTime balls numBalls = Inr balls'"
    using a UpdateFrame_total by blast
next
  fix balls' assume r: "UpdateFrame e deltaTime balls numBalls = Inr balls'"
  have s: "map static_part balls' = map static_part balls" by (rule UpdateFrame_static[OF r])
  have "map (fst \<circ> static_part) balls' = map (fst \<circ> static_part) balls"
    using s by (metis map_map)
  then show "map radius balls' = map radius balls"
    by (simp add: static_part_def comp_def)
next
  fix balls' assume r: "UpdateFrame e deltaTime balls numBalls = Inr balls'"
  have s: "map static_part balls' = map static_part balls" by (rule UpdateFrame_static[OF r])
  have "map (fst \<circ> snd \<circ> static_part) balls' = map (fst \<circ> snd \<circ> static_part) balls"
    using s by (metis map_map)
  then show "map mass balls' = map mass balls"
    by (simp add: static_part_def comp_def)
next
  fix balls' assume r: "UpdateFrame e deltaTime balls numBalls = Inr balls'"
  have s: "map static_part balls' = map static_part balls" by (rule UpdateFrame_static[OF r])
  have "map (snd \<circ> snd \<circ> static_part) balls' = map (snd \<circ> snd \<circ> static_part) balls"
    using s by (metis map_map)
  then show "map color balls' = map color balls"
    by (simp add: static_part_def comp_def)
qed

theorem UpdateFrame_keeps_radius_mass_color_witness:
  "\<exists>balls'.
     UpdateFrame 1 1
       [\<lparr>position = \<lparr>x = 16, y = 300\<rparr>, velocity = \<lparr>x = 0, y = 0\<rparr>, radius = 15, mass = 15 / 2,
         color = Color 255 0 0 255\<rparr>,
        \<lparr>position = \<lparr>x = 46, y = 300\<rparr>, velocity = \<lparr>x = - 10, y = 0\<rparr>, radius = 15, mass = 15 / 2,
         color = Color 0 0 255 255\<rparr>] 2 = Inr balls' \<and>
     map radius balls' = [15, 15] \<and> map mass balls' = [15 / 2, 15 / 2] \<and>
     map color balls' = [Color 255 0 0 255, Color 0 0 255 255]"
  using UpdateFrame_keeps_radius_mass_color[of 2
       "[\<lparr>position = \<lparr>x = 16, y = 300\<rparr>, velocity = \<lparr>x = 0, y = 0\<rparr>, radius = 15, mass = 15 / 2,
         color = Color 255 0 0 255\<rparr>,
        \<lparr>position = \<lparr>x = 46, y = 300\<rparr>, velocity = \<lparr>x = - 10, y = 0\<rparr>, radius = 15, mass = 15 / 2,
         color = Color 0 0 255 255\<rparr>]" 1 1]
  by auto

section \<open>Wall containment: the claim as stated fails\<close>

lemma sqrt_400: "sqrt 400 = 20"
  using real_sqrt_abs[of 20] by simp

lemma upt_0_2: "[0 ..< 2] = [0, Suc 0]"
  by (simp add: upt_rec)

lemma upt_1_2: "[Suc 0 ..< 2] = [Suc 0]"
  by (simp add: upt_rec)

lemma pushed_out:
  "UpdateFrame 1 1
     [\<lparr>position = \<lparr>x = 16, y = 300\<rparr>, velocity = \<lparr>x = 0, y = 0\<rparr>, radius = 15, mass = 15 / 2,
       color = Color 255 0 0 255\<rparr>,
      \<lparr>position = \<lparr>x = 46, y = 300\<rparr>, velocity = \<lparr>x = - 10, y = 0\<rparr>, radius = 15, mass = 15 / 2,
       color = Color 0 0 255 255\<rparr>] 2
   = Inr
     [\<lparr>position = \<lparr>x = 11, y = 300\<rparr>, velocity = \<lparr>x = - 10, y = 0\<rparr>, radius = 15, mass = 15 / 2,
       color = Color 255 0 0 255\<rparr>,
      \<lparr>position = \<lparr>x = 41, y = 300\<rparr>, velocity = \<lparr>x = 0, y = 0\<rparr>, radius = 15, mass = 15 / 2,
       color = Color 0 0 255 255\<rparr>]"
  by (simp add: UpdateFrame_def Let_def collide_step_def pair_step_def integrate_def
        CheckWallCollision_def CheckBallCollision_def fdiv_def bindE_def WIDTH_def HEIGHT_def
        upt_0_2 upt_1_2 sqrt_400)

text \<open>Claim C4 as stated fails. Two balls of radius 15 inside the window, at (16, 300) at
  rest and at (46, 300) moving left at speed 10; after one step of frame time 1 the second ball
  overlaps the first by 10, the correction pushes the first ball to \<open>x = 11\<close>, which is less
  than its radius, and nothing clamps it again in this step.\<close>

theorem wall_containment_counterexample:
  "list_all inside_window
     [\<lparr>position = \<lparr>x = 16, y = 300\<rparr>, velocity = \<lparr>x = 0, y = 0\<rparr>, radius = 15, mass = 15 / 2,
       color = Color 255 0 0 255\<rparr>,
      \<lparr>position = \<lparr>x = 46, y = 300\<rparr>, velocity = \<lparr>x = - 10, y = 0\<rparr>, radius = 15, mass = 15 / 2,
       color = Color 0 0 255 255\<rparr>] \<and>
   UpdateFrames 1 [1]
     [\<lparr>position = \<lparr>x = 16, y = 300\<rparr>, velocity = \<lparr>x = 0, y = 0\<rparr>, radius = 15, mass = 15 / 2,
       color = Color 255 0 0 255\<rparr>,
      \<lparr>position = \<lparr>x = 46, y = 300\<rparr>, velocity = \<lparr>x = - 10, y = 0\<rparr>, radius = 15, mass = 15 / 2,
       color = Color 0 0 255 255\<rparr>] 2
   = Inr
     [\<lparr>position = \<lparr>x = 11, y = 300\<rparr>, velocity = \<lparr>x = - 10, y = 0\<rparr>, radius = 15, mass = 15 / 2,
       color = Color 255 0 0 255\<rparr>,
      \<lparr>position = \<lparr>x = 41, y = 300\<rparr>, velocity = \<lparr>x = 0, y = 0\<rparr>, radius = 15, mass = 15 / 2,
       color = Color 0 0 255 255\<rparr>] \<and>
   \<not> inside_window
     \<lparr>position = \<lparr>x = 11, y = 300\<rparr>, velocity = \<lparr>x = - 10, y = 0\<rparr>, radius = 15, mass = 15 / 2,
      color = Color 255 0 0 255\<rparr>"
  by (simp add: pushed_out inside_window_def WIDTH_def HEIGHT_def)

section \<open>InitBalls and division by zero\<close>

lemma GetRandomValue_range:
  "min lo hi \<le> fst (GetRandomValue lo hi g) \<and> fst (GetRandomValue lo hi g) \<le> max lo hi"
proof -
  define k where "k = max lo hi - min lo hi + 1"
  have k: "0 < k" by (simp add: k_def)
  have "0 \<le> int (fst g (snd g)) mod k" "int (fst g (snd g)) mod k < k"
    using k by simp_all
  then show ?thesis
    by (simp add: GetRandomValue_def Let_def k_def)
qed

lemma place_loop_static:
  "map static_part (fst (place_loop balls i positionFound attempts g)) = map static_part balls"
proof (induction balls i positionFound attempts g rule: place_loop.induct)
  case (1 balls i positionFound attempts g)
  show ?case
  proof (cases "\<not> positionFound \<and> attempts < 100")
    case True
    obtain px g1 where d1: "GetRandomValue (radius (balls ! i)) (WIDTH - radius (balls ! i)) g = (px, g1)"
      by (cases "GetRandomValue (radius (balls ! i)) (WIDTH - radius (balls ! i)) g")
    obtain py g2 where d2: "GetRandomValue (radius (balls ! i)) (HEIGHT - radius (balls ! i)) g1 = (py, g2)"
      by (cases "GetRandomValue (radius (balls ! i)) (HEIGHT - radius (balls ! i)) g1")
    have "map static_part (balls[i := (balls ! i)\<lparr>position := \<lparr>x = real_of_int px, y = real_of_int py\<rparr>\<rparr>])
          = map static_part balls"
      by (rule map_static_update) (simp add: static_part_def)
    then show ?thesis
      using "1.IH"[OF True d1[symmetric] d2[symmetric]] True
      by (subst place_loop.simps) (simp add: d1 d2)
  next
    case False
    show ?thesis by (subst place_loop.simps) (simp only: False if_False fst_conv)
  qed
qed

lemma init_ball_result:
  assumes i: "i < length balls"
  shows "length (fst (init_ball i (balls, g))) = length balls \<and>
         (\<forall>k < length balls. k \<noteq> i \<longrightarrow>
            static_part (fst (init_ball i (balls, g)) ! k) = static_part (balls ! k)) \<and>
         MIN_BALL_RADIUS \<le> radius (fst (init_ball i (balls, g)) ! i) \<and>
         radius (fst (init_ball i (balls, g)) ! i) \<le> MAX_BALL_RADIUS \<and>
         mass (fst (init_ball i (balls, g)) ! i)
           = real_of_int (radius (fst (init_ball i (balls, g)) ! i)) / 2"
proof -
  obtain r g1 where d0: "GetRandomValue MIN_BALL_RADIUS MAX_BALL_RADIUS g = (r, g1)"
    by (cases "GetRandomValue MIN_BALL_RADIUS MAX_BALL_RADIUS g")
  have r: "MIN_BALL_RADIUS \<le> r" "r \<le> MAX_BALL_RADIUS"
    using GetRandomValue_range[of MIN_BALL_RADIUS MAX_BALL_RADIUS g] d0
    by (simp_all add: MIN_BALL_RADIUS_def MAX_BALL_RADIUS_def)
  define b0 where "b0 = balls[i := (balls ! i)\<lparr>radius := r, mass := real_of_int r / 2\<rparr>]"
  obtain balls1 g2 where d1: "place_loop b0 i False 0 g1 = (balls1, g2)"
    by (cases "place_loop b0 i False 0 g1")
  have st1: "map static_part balls1 = map static_part b0"
    using place_loop_static[of b0 i False 0 g1] d1 by simp
  have l1: "length balls1 = length balls"
    using map_eq_imp_length_eq[OF st1] by (simp add: b0_def)
  have s1: "static_part (balls1 ! k) = static_part (b0 ! k)" if "k < length balls" for k
    using static_part_nth[OF st1, of k] that by (simp add: b0_def)
  obtain vx g3 where d3: "GetRandomValue (float_to_int (- VELOCITY_SCALE)) (float_to_int VELOCITY_SCALE) g2 = (vx, g3)"
    by (cases "GetRandomValue (float_to_int (- VELOCITY_SCALE)) (float_to_int VELOCITY_SCALE) g2")
  obtain vy g4 where d4: "GetRandomValue (float_to_int (- VELOCITY_SCALE)) (float_to_int VELOCITY_SCALE) g3 = (vy, g4)"
    by (cases "GetRandomValue (float_to_int (- VELOCITY_SCALE)) (float_to_int VELOCITY_SCALE) g3")
  obtain cr g5 where d5: "GetRandomValue 100 255 g4 = (cr, g5)"
    by (cases "GetRandomValue 100 255 g4")
  obtain cg g6 where d6: "GetRandomValue 100 255 g5 = (cg, g6)"
    by (cases "GetRandomValue 100 255 g5")
  obtain cb g7 where d7: "GetRandomValue 100 255 g6 = (cb, g7)"
    by (cases "GetRandomValue 100 255 g6")
  define final where
    "final = balls1[i := (balls1 ! i)\<lparr>velocity := \<lparr>x = real_of_int vx, y = real_of_int vy\<rparr>,
                                     color := Color (of_int cr) (of_int cg) (of_int cb) 255\<rparr>]"
  have res: "fst (init_ball i (balls, g)) = final"
    by (simp add: init_ball_def d0 b0_def[symmetric] d1 d3 d4 d5 d6 d7 final_def)
  have fi: "final ! i = (balls1 ! i)\<lparr>velocity := \<lparr>x = real_of_int vx, y = real_of_int vy\<rparr>,
                                     color := Color (of_int cr) (of_int cg) (of_int cb) 255\<rparr>"
    using i l1 by (simp add: final_def)
  have b0i: "static_part (b0 ! i) = (r, real_of_int r / 2, color (balls ! i))"
    using i by (simp add: b0_def static_part_def)
  have "static_part (balls1 ! i) = (r, real_of_int r / 2, color (balls ! i))"
    using s1[OF i] b0i by simp
  then have ri: "radius (final ! i) = r" "mass (final ! i) = real_of_int r / 2"
    by (simp_all add: fi static_part_def)
  have other: "static_part (final ! k) = static_part (balls ! k)" if "k < length balls" "k \<noteq> i" for k
  proof -
    have "final ! k = balls1 ! k" using that by (simp add: final_def)
    moreover have "b0 ! k = balls ! k" using that by (simp add: b0_def)
    ultimately show ?thesis using s1[OF that(1)] by simp
  qed
  have "length final = length balls" using l1 by (simp add: final_def)
  then show ?thesis
    unfolding res using other ri r by simp
qed

lemma well_formed_static:
  assumes "static_part b' = static_part b" and "well_formed b"
  shows "well_formed b'"
  using assms by (simp add: static_part_def well_formed_def)

lemma well_formed_mass: "well_formed ball \<Longrightarrow> 0 < mass ball"
  by (simp add: well_formed_def MIN_BALL_RADIUS_def)

lemma init_loop_well_formed:
  assumes "m \<le> length balls"
  shows "length (fst (fold init_ball [0 ..< m] (balls, g))) = length balls \<and>
         (\<forall>k < m. well_formed (fst (fold init_ball [0 ..< m] (balls, g)) ! k))"
  using assms
proof (induction m)
  case 0
  then show ?case by simp
next
  case (Suc m)
  obtain bs g1 where st: "fold init_ball [0 ..< m] (balls, g) = (bs, g1)"
    by (cases "fold init_ball [0 ..< m] (balls, g)")
  have len: "length bs = length balls" and wf: "\<And>k. k < m \<Longrightarrow> well_formed (bs ! k)"
    using Suc st by simp_all
  have m: "m < length bs" using Suc.prems len by simp
  define bs' where "bs' = fst (init_ball m (bs, g1))"
  have step: "fst (fold init_ball [0 ..< Suc m] (balls, g)) = bs'"
    by (simp add: st bs'_def)
  have l': "length bs' = length bs"
    and other: "\<And>k. k < length bs \<Longrightarrow> k \<noteq> m \<Longrightarrow> static_part (bs' ! k) = static_part (bs ! k)"
    and new: "MIN_BALL_RADIUS \<le> radius (bs' ! m)" "radius (bs' ! m) \<le> MAX_BALL_RADIUS"
             "mass (bs' ! m) = real_of_int (radius (bs' ! m)) / 2"
    using init_ball_result[OF m, of g1] unfolding bs'_def by simp_all
  have "well_formed (bs' ! k)" if "k < Suc m" for k
  proof (cases "k = m")
    case True
    then show ?thesis using new by (simp add: well_formed_def)
  next
    case False
    then have k: "k < m" using that by simp
    then have "static_part (bs' ! k) = static_part (bs ! k)" using other[of k] m by simp
    then show ?thesis using wf[OF k] by (rule well_formed_static)
  qed
  then show ?case unfolding step using l' len by simp
qed

lemma InitBalls_well_formed:
  assumes "InitBalls balls numBalls g = Inr (balls', g')" and "k < nat numBalls"
  shows "well_formed (balls' ! k)"
proof -
  have len: "nat numBalls \<le> length balls"
    using assms(1) by (auto simp add: InitBalls_def split: if_splits)
  have "balls' = fst (fold init_ball [0 ..< nat numBalls] (balls, g))"
    using assms(1) by (auto simp add: InitBalls_def split: if_splits)
  then show ?thesis using init_loop_well_formed[OF len, of g] assms(2) by simp
qed

lemma CheckBallCollision_coincident:
  assumes "distSq b1 b2 = 0"
  shows "CheckBallCollision e b1 b2 = Inr (b1, b2)"
proof (rule CheckBallCollision_no_contact)
  show "\<not> in_contact b1 b2" using assms by (simp add: in_contact_def)
qed

text \<open>Claim C7. For any two balls that \<open>InitBalls\<close> has produced, the radius is at least
  \<open>MIN_BALL_RADIUS\<close>, the mass is half the radius and so positive, and
  \<open>CheckBallCollision\<close> returns a result: none of its divisions has a zero divisor. When the
  two centers coincide (\<open>distSq = 0\<close>) the pair is skipped and both balls are returned
  unchanged.\<close>

theorem no_division_by_zero:
  assumes "InitBalls balls numBalls g = Inr (balls', g')"
    and "i < nat numBalls" and "j < nat numBalls"
  shows "MIN_BALL_RADIUS \<le> radius (balls' ! i) \<and> mass (balls' ! i) = real_of_int (radius (balls' ! i)) / 2 \<and>
         MIN_BALL_RADIUS \<le> radius (balls' ! j) \<and> mass (balls' ! j) = real_of_int (radius (balls' ! j)) / 2 \<and>
         0 < mass (balls' ! i) \<and> 0 < mass (balls' ! j) \<and>
         (\<exists>b1 b2. CheckBallCollision e (balls' ! i) (balls' ! j) = Inr (b1, b2)) \<and>
         (distSq (balls' ! i) (balls' ! j) = 0 \<longrightarrow>
            CheckBallCollision e (balls' ! i) (balls' ! j) = Inr (balls' ! i, balls' ! j))"
proof -
  have wi: "well_formed (balls' ! i)" and wj: "well_formed (balls' ! j)"
    using InitBalls_well_formed[OF assms(1)] assms(2,3) by simp_all
  have mi: "0 < mass (balls' ! i)" and mj: "0 < mass (balls' ! j)"
    using wi wj by (simp_all add: well_formed_mass)
  show ?thesis
    using wi wj mi mj CheckBallCollision_defined[OF mi mj, of e] CheckBallCollision_coincident
    by (simp add: well_formed_def)
qed

lemma place_loop_found: "place_loop balls i True attempts g = (balls, g)"
  by (subst place_loop.simps) simp

lemma place_loop_first:
  "place_loop balls i False 0 g =
     (case GetRandomValue (radius (balls ! i)) (WIDTH - radius (balls ! i)) g of
           (px, g1) \<Rightarrow>
        (case GetRandomValue (radius (balls ! i)) (HEIGHT - radius (balls ! i)) g1 of
           (py, g2) \<Rightarrow>
             place_loop
               (balls[i := (balls ! i)\<lparr>position := \<lparr>x = real_of_int px, y = real_of_int py\<rparr>\<rparr>])
               i
               (list_all
                  (\<lambda>j. \<not> ((real_of_int px - x (position (balls ! j))) * (real_of_int px - x (position (balls ! j))) +
                           (real_of_int py - y (position (balls ! j))) * (real_of_int py - y (position (balls ! j)))
                           < real_of_int (radius (balls ! i) + radius (balls ! j)) *
                             real_of_int (radius (balls ! i) + radius (balls ! j))))
                  [0 ..< i])
               (0 + 1)
               g2))"
  by (subst place_loop.simps) simp

lemma init_example:
  "InitBalls
     [\<lparr>position = \<lparr>x = 0, y = 0\<rparr>, velocity = \<lparr>x = 0, y = 0\<rparr>, radius = 0, mass = 0,
       color = Color 0 0 0 0\<rparr>,
      \<lparr>position = \<lparr>x = 0, y = 0\<rparr>, velocity = \<lparr>x = 0, y = 0\<rparr>, radius = 0, mass = 0,
       color = Color 0 0 0 0\<rparr>] 2 (\<lambda>n. 37 * n, 0)
   = Inr
      ([\<lparr>position = \<lparr>x = 52, y = 89\<rparr>, velocity = \<lparr>x = - 89, y = - 52\<rparr>, radius = 15,
         mass = 15 / 2, color = Color 129 166 203 255\<rparr>,
        \<lparr>position = \<lparr>x = 350, y = 387\<rparr>, velocity = \<lparr>x = - 194, y = - 157\<rparr>, radius = 17,
         mass = 17 / 2, color = Color 113 150 187 255\<rparr>],
       (\<lambda>n. 37 * n, 16))"
  by (simp add: InitBalls_def init_ball_def place_loop_first place_loop_found GetRandomValue_def
        Let_def float_to_int_def upt_0_2 upt_1_2 WIDTH_def HEIGHT_def MIN_BALL_RADIUS_def
        MAX_BALL_RADIUS_def VELOCITY_SCALE_def)

lemma place_loop_blocked:
  assumes "position b0 = \<lparr>x = 15, y = 15\<rparr>" and "radius b0 = 15" and "radius b1 = 15"
    and "100 - a = n"
  shows "place_loop [b0, b1] (Suc 0) False a (\<lambda>n. 0, c) =
           (if a < 100 then [b0, b1\<lparr>position := \<lparr>x = 15, y = 15\<rparr>\<rparr>] else [b0, b1],
            (\<lambda>n. 0, c + 2 * (100 - a)))"
  using assms
proof (induction n arbitrary: a b1 c)
  case 0
  then have "\<not> a < 100" by simp
  then show ?case by (subst place_loop.simps) simp
next
  case (Suc n)
  then have a: "a < 100" and n: "100 - (a + 1) = n" by simp_all
  have r: "radius (b1\<lparr>position := \<lparr>x = 15, y = 15\<rparr>\<rparr>) = 15" using Suc.prems by simp
  have IH: "place_loop [b0, b1\<lparr>position := \<lparr>x = 15, y = 15\<rparr>\<rparr>] (Suc 0) False (a + 1) (\<lambda>n. 0, c + 2) =
           (if a + 1 < 100 then [b0, b1\<lparr>position := \<lparr>x = 15, y = 15\<rparr>\<rparr>]
            else [b0, b1\<lparr>position := \<lparr>x = 15, y = 15\<rparr>\<rparr>],
            (\<lambda>n. 0, c + 2 + 2 * (100 - (a + 1))))"
    using Suc.IH[OF Suc.prems(1,2) r n, of "c + 2"] by simp
  have c: "c + 2 + 2 * (100 - (a + 1)) = c + 2 * (100 - a)" using a by simp
  show ?case
    using a Suc.prems(1,2,3)
    by (subst place_loop.simps)
       (simp add: GetRandomValue_def Let_def WIDTH_def HEIGHT_def IH[simplified] c[simplified])
qed

lemma init_blocked_example:
  "InitBalls
     [\<lparr>position = \<lparr>x = 0, y = 0\<rparr>, velocity = \<lparr>x = 0, y = 0\<rparr>, radius = 0, mass = 0,
       color = Color 0 0 0 0\<rparr>,
      \<lparr>position = \<lparr>x = 0, y = 0\<rparr>, velocity = \<lparr>x = 0, y = 0\<rparr>, radius = 0, mass = 0,
       color = Color 0 0 0 0\<rparr>] 2 (\<lambda>n. 0, 0)
   = Inr
      ([\<lparr>position = \<lparr>x = 15, y = 15\<rparr>, velocity = \<lparr>x = - 200, y = - 200\<rparr>, radius = 15,
         mass = 15 / 2, color = Color 100 100 100 255\<rparr>,
        \<lparr>position = \<lparr>x = 15, y = 15\<rparr>, velocity = \<lparr>x = - 200, y = - 200\<rparr>, radius = 15,
         mass = 15 / 2, color = Color 100 100 100 255\<rparr>],
       (\<lambda>n. 0, 214))"
  by (simp add: InitBalls_def init_ball_def place_loop_first place_loop_found place_loop_blocked
        GetRandomValue_def Let_def float_to_int_def upt_0_2 upt_1_2 WIDTH_def HEIGHT_def
        MIN_BALL_RADIUS_def MAX_BALL_RADIUS_def VELOCITY_SCALE_def)

theorem no_division_by_zero_witness:
  "(\<exists>b1 b2.
      CheckBallCollision 1
        \<lparr>position = \<lparr>x = 52, y = 89\<rparr>, velocity = \<lparr>x = - 89, y = - 52\<rparr>, radius = 15,
         mass = 15 / 2, color = Color 129 166 203 255\<rparr>
        \<lparr>position = \<lparr>x = 350, y = 387\<rparr>, velocity = \<lparr>x = - 194, y = - 157\<rparr>, radius = 17,
         mass = 17 / 2, color = Color 113 150 187 255\<rparr> = Inr (b1, b2)) \<and>
   CheckBallCollision 1
     \<lparr>position = \<lparr>x = 15, y = 15\<rparr>, velocity = \<lparr>x = - 200, y = - 200\<rparr>, radius = 15,
      mass = 15 / 2, color = Color 100 100 100 255\<rparr>
     \<lparr>position = \<lparr>x = 15, y = 15\<rparr>, velocity = \<lparr>x = - 200, y = - 200\<rparr>, radius = 15,
      mass = 15 / 2, color = Color 100 100 100 255\<rparr>
   = Inr (\<lparr>position = \<lparr>x = 15, y = 15\<rparr>, velocity = \<lparr>x = - 200, y = - 200\<rparr>, radius = 15,
           mass = 15 / 2, color = Color 100 100 100 255\<rparr>,
          \<lparr>position = \<lparr>x = 15, y = 15\<rparr>, velocity = \<lparr>x = - 200, y = - 200\<rparr>, radius = 15,
           mass = 15 / 2, color = Color 100 100 100 255\<rparr>)"
  using no_division_by_zero[OF init_example, of 0 1 1]
        no_division_by_zero[OF init_blocked_example, of 0 1 1]
  by (simp add: distSq_def)

section \<open>Rounding to binary32\<close>

lemma expo_up_nonneg: "0 \<le> expo_up n a"
proof (induction n a rule: expo_up.induct)
  case (1 n a)
  show ?case
  proof (cases "n = 0 \<or> a < 2")
    case True
    then show ?thesis by (subst expo_up.simps) simp
  next
    case False
    then show ?thesis using 1 by (subst expo_up.simps) simp
  qed
qed

lemma expo_up_ge:
  assumes "2 ^ k \<le> a" and "k \<le> n"
  shows "int k \<le> expo_up n a"
  using assms
proof (induction k arbitrary: n a)
  case 0
  then show ?case by (simp add: expo_up_nonneg)
next
  case (Suc k)
  have a: "\<not> (n = 0 \<or> a < 2)"
  proof -
    have "(1::real) \<le> 2 ^ k" by simp
    then have "(2::real) \<le> 2 ^ Suc k" by simp
    then have "2 \<le> a" using Suc.prems(1) by linarith
    then show ?thesis using Suc.prems(2) by simp
  qed
  have "int k \<le> expo_up (n - 1) (a / 2)"
    using Suc.prems by (intro Suc.IH) simp_all
  then show ?case using a by (subst expo_up.simps) simp
qed

lemma expo_up_le:
  assumes "a < 2 ^ Suc m"
  shows "expo_up n a \<le> int m"
  using assms
proof (induction m arbitrary: n a)
  case 0
  then show ?case by (subst expo_up.simps) simp
next
  case (Suc m)
  show ?case
  proof (cases "n = 0 \<or> a < 2")
    case True
    then show ?thesis by (subst expo_up.simps) simp
  next
    case False
    have "expo_up (n - 1) (a / 2) \<le> int m"
      using Suc.prems by (intro Suc.IH) simp
    then show ?thesis using False by (subst expo_up.simps) simp
  qed
qed

lemma expo_up_lower:
  assumes "1 \<le> a"
  shows "2 powi (expo_up n a) \<le> a"
  using assms
proof (induction n a rule: expo_up.induct)
  case (1 n a)
  show ?case
  proof (cases "n = 0 \<or> a < 2")
    case True
    then show ?thesis using "1.prems" by (subst expo_up.simps) simp
  next
    case False
    then have "1 \<le> a / 2" by simp
    then have "2 powi (expo_up (n - 1) (a / 2)) \<le> a / 2"
      using "1.IH"[OF False] by simp
    then have "2 powi (1 + expo_up (n - 1) (a / 2)) \<le> a"
      by (simp add: power_int_add)
    then show ?thesis using False by (subst expo_up.simps) simp
  qed
qed

lemma round_even_cases: "round_even w = \<lfloor>w\<rfloor> \<or> round_even w = \<lfloor>w\<rfloor> + 1"
  by (simp add: round_even_def)

lemma round_even_ge:
  assumes "of_int N \<le> w"
  shows "N \<le> round_even w"
proof -
  have "N \<le> \<lfloor>w\<rfloor>" using assms by (simp add: le_floor_iff)
  then show ?thesis using round_even_cases[of w] by linarith
qed

lemma round_even_nonpos:
  assumes "w \<le> 0"
  shows "round_even w \<le> 0"
proof (cases "w = 0")
  case True
  then show ?thesis by (simp add: round_even_def)
next
  case False
  then have "w < 0" using assms by simp
  then have "\<lfloor>w\<rfloor> \<le> - 1" by (simp add: floor_le_iff)
  then show ?thesis using round_even_cases[of w] by linarith
qed

lemma round_even_of_int: "round_even (of_int j) = j"
  by (simp add: round_even_def)

lemma ulp32_pos: "0 < ulp32 v"
  by (simp add: ulp32_def)

lemma fl32_value:
  assumes "fl32 v = Inr s"
  shows "s = of_int (round_even (v / ulp32 v)) * ulp32 v"
  using assms by (simp add: fl32_def split: if_splits)

lemma fl32_pos:
  assumes "fl32 v = Inr s" and "0 < s"
  shows "0 < v"
proof (rule ccontr)
  assume "\<not> 0 < v"
  then have "v / ulp32 v \<le> 0" using ulp32_pos[of v] by (simp add: divide_le_0_iff)
  then have "round_even (v / ulp32 v) \<le> 0" by (rule round_even_nonpos)
  then have "of_int (round_even (v / ulp32 v)) * ulp32 v \<le> 0"
    using ulp32_pos[of v] by (simp add: mult_le_0_iff)
  then show False using assms fl32_value[OF assms(1)] by simp
qed

lemma fl32_ge_edge:
  assumes v: "real_of_int c \<le> v" and c: "512 \<le> c" "c \<le> 1024"
    and r: "fl32 v = Inr s"
  shows "real_of_int c \<le> s"
proof -
  define E where "E = expo_up 128 v"
  have v1: "1 \<le> v" and v512: "2 ^ 9 \<le> v" using v c by simp_all
  have ex: "exponent32 v = E" using v1 by (simp add: exponent32_def E_def)
  have E9: "9 \<le> E" using expo_up_ge[OF v512, of 128] by (simp add: E_def)
  have low: "2 powi E \<le> v" unfolding E_def using v1 by (rule expo_up_lower)
  have u: "ulp32 v = 2 powi (E - 23)" by (simp add: ulp32_def ex)
  have s: "s = of_int (round_even (v / 2 powi (E - 23))) * 2 powi (E - 23)"
    using fl32_value[OF r] by (simp add: u)
  have upos: "(0::real) < 2 powi (E - 23)" by simp
  show ?thesis
  proof (cases "real_of_int c \<le> 2 powi E")
    case True
    have "2 powi E = 2 powi 23 * (2 powi (E - 23) :: real)"
      using power_int_add[of "2::real" 23 "E - 23"] by simp
    then have "real_of_int 8388608 * 2 powi (E - 23) \<le> v" using low by simp
    then have "real_of_int 8388608 \<le> v / 2 powi (E - 23)"
      using upos by (simp add: pos_le_divide_eq)
    then have "8388608 \<le> round_even (v / 2 powi (E - 23))" by (rule round_even_ge)
    then have "real_of_int 8388608 \<le> real_of_int (round_even (v / 2 powi (E - 23)))"
      by linarith
    then have "real_of_int 8388608 * 2 powi (E - 23) \<le> s"
      unfolding s using upos by (simp add: mult_right_mono del: of_int_numeral)
    then have "2 powi E \<le> s"
      using \<open>2 powi E = 2 powi 23 * (2 powi (E - 23) :: real)\<close> by simp
    then show ?thesis using True by linarith
  next
    case False
    have "E < 10"
    proof (rule ccontr)
      assume "\<not> E < 10"
      then have "(2::real) powi 10 \<le> 2 powi E" by (intro power_int_increasing) simp_all
      then show False using False c by simp
    qed
    then have E: "E = 9" using E9 by simp
    have u9: "(2::real) powi (E - 23) = 1 / 16384" by (simp add: E power_int_minus_divide)
    have "real_of_int (c * 16384) \<le> v / 2 powi (E - 23)"
      using v by (simp add: u9)
    then have "c * 16384 \<le> round_even (v / 2 powi (E - 23))" by (rule round_even_ge)
    then have "real_of_int (c * 16384) \<le> real_of_int (round_even (v / 2 powi (E - 23)))"
      by linarith
    then show ?thesis unfolding s u9 by simp
  qed
qed

lemma int32_exact:
  assumes "0 \<le> k" and "k < 16777216"
  shows "int32 k = Inr (real_of_int k)"
proof (cases "k = 0")
  case True
  then show ?thesis
    by (simp add: int32_def fl32_def ulp32_def exponent32_def round_even_def expo_down.simps)
next
  case False
  define v where "v = real_of_int k"
  define E where "E = expo_up 128 v"
  have v1: "1 \<le> v" using assms False by (simp add: v_def)
  have vlt: "v < 2 ^ Suc 23" using assms by (simp add: v_def)
  have ex: "exponent32 v = E" using v1 by (simp add: exponent32_def E_def)
  have E0: "0 \<le> E" by (simp add: E_def expo_up_nonneg)
  have E23: "E \<le> 23" using expo_up_le[OF vlt, of 128] by (simp add: E_def)
  define d where "d = nat (23 - E)"
  have "E - 23 = - int d" using E23 by (simp add: d_def)
  then have u: "ulp32 v = 1 / 2 ^ d"
    by (simp add: ulp32_def ex power_int_minus_divide)
  have "v / ulp32 v = real_of_int (k * 2 ^ d)" unfolding u by (simp add: v_def)
  then have "round_even (v / ulp32 v) = k * 2 ^ d" by (simp only: round_even_of_int)
  then have val: "real_of_int (round_even (v / ulp32 v)) * ulp32 v = v"
    unfolding u by (simp add: v_def)
  have "\<bar>v\<bar> < 2 ^ 128" using v1 vlt by simp
  then show ?thesis
    unfolding int32_def v_def[symmetric] fl32_def val by simp
qed

text \<open>The equations that evaluate an operation on two given numbers.\<close>

lemmas fl32_eval = fl32_def ulp32_def exponent32_def round_even_def expo_up.simps expo_down.simps
  add32_def sub32_def mul32_def div32_def sqrt32_def int32_def

section \<open>One collision in binary32\<close>




















































































lemma mp_sqrt_0: "sqrt 25 = 5"
  using real_sqrt_abs[of "5"] by (simp add: power2_eq_square)

lemma mp_op0: "sub32 24 21 = Inr 3"
  by (simp add: fl32_eval)

lemma mp_op1: "sub32 27 23 = Inr 4"
  by (simp add: fl32_eval)

lemma mp_op2: "mul32 3 3 = Inr 9"
  by (simp add: fl32_eval)

lemma mp_op3: "mul32 4 4 = Inr 16"
  by (simp add: fl32_eval)

lemma mp_op4: "add32 9 16 = Inr 25"
  by (simp add: fl32_eval)

lemma mp_op5: "int32 50 = Inr 50"
  by (simp add: fl32_eval)

lemma mp_op6: "mul32 50 50 = Inr 2500"
  by (simp add: fl32_eval)

lemma mp_op7: "sqrt32 25 = Inr 5"
  by (simp add: fl32_eval mp_sqrt_0)

lemma mp_op8: "div32 3 5 = Inr (5033165 / 8388608)"
  by (simp add: fl32_eval)

lemma mp_op9: "div32 4 5 = Inr (13421773 / 16777216)"
  by (simp add: fl32_eval)

lemma mp_op10: "sub32 50 5 = Inr 45"
  by (simp add: fl32_eval)

lemma mp_op11: "mul32 (1 / 2) 45 = Inr (45 / 2)"
  by (simp add: fl32_eval)

lemma mp_op12: "mul32 (45 / 2) (5033165 / 8388608) = Inr (14155777 / 1048576)"
  by (simp add: fl32_eval)

lemma mp_op13: "sub32 21 (14155777 / 1048576) = Inr (7864319 / 1048576)"
  by (simp add: fl32_eval)

lemma mp_op14: "mul32 (45 / 2) (13421773 / 16777216) = Inr 18"
  by (simp add: fl32_eval)

lemma mp_op15: "sub32 23 18 = Inr 5"
  by (simp add: fl32_eval)

lemma mp_op16: "add32 24 (14155777 / 1048576) = Inr (75 / 2)"
  by (simp add: fl32_eval)

lemma mp_op17: "add32 27 18 = Inr 45"
  by (simp add: fl32_eval)

lemma mp_op18: "sub32 0 0 = Inr 0"
  by (simp add: fl32_eval)

lemma mp_op19: "mul32 0 (5033165 / 8388608) = Inr 0"
  by (simp add: fl32_eval)

lemma mp_op20: "mul32 0 (13421773 / 16777216) = Inr 0"
  by (simp add: fl32_eval)

lemma mp_op21: "add32 0 0 = Inr 0"
  by (simp add: fl32_eval)

lemma mp_op22: "add32 1 1 = Inr 2"
  by (simp add: fl32_eval)

lemma mp_op23: "mul32 (- 2) 0 = Inr 0"
  by (simp add: fl32_eval)

lemma mp_op24: "div32 1 (25 / 2) = Inr (5368709 / 67108864)"
  by (simp add: fl32_eval)

lemma mp_op25: "add32 (5368709 / 67108864) (5368709 / 67108864) = Inr (5368709 / 33554432)"
  by (simp add: fl32_eval)

lemma mp_op26: "div32 0 (5368709 / 33554432) = Inr 0"
  by (simp add: fl32_eval)

lemma mp_op27: "div32 0 (25 / 2) = Inr 0"
  by (simp add: fl32_eval)

lemmas mp_ops = mp_sqrt_0 mp_op0 mp_op1 mp_op2 mp_op3 mp_op4 mp_op5 mp_op6 mp_op7 mp_op8 mp_op9 mp_op10 mp_op11 mp_op12 mp_op13 mp_op14 mp_op15 mp_op16 mp_op17 mp_op18 mp_op19 mp_op20 mp_op21 mp_op22 mp_op23 mp_op24 mp_op25 mp_op26 mp_op27

lemma mp_result:
  "CheckBallCollision32 1
       \<lparr>position = \<lparr>x = 21, y = 23\<rparr>, velocity = \<lparr>x = 0, y = 0\<rparr>,
        radius = 25, mass = 25 / 2, color = Color 255 0 0 255\<rparr>
       \<lparr>position = \<lparr>x = 24, y = 27\<rparr>, velocity = \<lparr>x = 0, y = 0\<rparr>,
        radius = 25, mass = 25 / 2, color = Color 0 0 255 255\<rparr>
   = Inr
      (\<lparr>position = \<lparr>x = 7864319 / 1048576, y = 5\<rparr>, velocity = \<lparr>x = 0, y = 0\<rparr>,
        radius = 25, mass = 25 / 2, color = Color 255 0 0 255\<rparr>,
       \<lparr>position = \<lparr>x = 75 / 2, y = 45\<rparr>, velocity = \<lparr>x = 0, y = 0\<rparr>,
        radius = 25, mass = 25 / 2, color = Color 0 0 255 255\<rparr>)"
  by (simp add: CheckBallCollision32_def bindE_Inr mp_ops)

text \<open>Claim C10 as stated fails in the arithmetic of the program. Two resting balls of
  radius 25 at (21, 23) and (24, 27), 5 apart: the rounded positional correction leaves the
  first at \<open>x = 7.5 - 2^-20\<close> and the second at \<open>x = 37.5\<close>, so the sum of the two
  \<open>x\<close> coordinates is no longer 45.\<close>

theorem midpoint_preserved_counterexample:
  "in_contact
       \<lparr>position = \<lparr>x = 21, y = 23\<rparr>, velocity = \<lparr>x = 0, y = 0\<rparr>,
        radius = 25, mass = 25 / 2, color = Color 255 0 0 255\<rparr>
       \<lparr>position = \<lparr>x = 24, y = 27\<rparr>, velocity = \<lparr>x = 0, y = 0\<rparr>,
        radius = 25, mass = 25 / 2, color = Color 0 0 255 255\<rparr> \<and>
   CheckBallCollision32 1
       \<lparr>position = \<lparr>x = 21, y = 23\<rparr>, velocity = \<lparr>x = 0, y = 0\<rparr>,
        radius = 25, mass = 25 / 2, color = Color 255 0 0 255\<rparr>
       \<lparr>position = \<lparr>x = 24, y = 27\<rparr>, velocity = \<lparr>x = 0, y = 0\<rparr>,
        radius = 25, mass = 25 / 2, color = Color 0 0 255 255\<rparr>
   = Inr
      (\<lparr>position = \<lparr>x = 7864319 / 1048576, y = 5\<rparr>, velocity = \<lparr>x = 0, y = 0\<rparr>,
        radius = 25, mass = 25 / 2, color = Color 255 0 0 255\<rparr>,
       \<lparr>position = \<lparr>x = 75 / 2, y = 45\<rparr>, velocity = \<lparr>x = 0, y = 0\<rparr>,
        radius = 25, mass = 25 / 2, color = Color 0 0 255 255\<rparr>) \<and>
   x (position
       \<lparr>position = \<lparr>x = 7864319 / 1048576, y = 5\<rparr>, velocity = \<lparr>x = 0, y = 0\<rparr>,
        radius = 25, mass = 25 / 2, color = Color 255 0 0 255\<rparr>) +
   x (position
       \<lparr>position = \<lparr>x = 75 / 2, y = 45\<rparr>, velocity = \<lparr>x = 0, y = 0\<rparr>,
        radius = 25, mass = 25 / 2, color = Color 0 0 255 255\<rparr>) \<noteq>
   x (position
       \<lparr>position = \<lparr>x = 21, y = 23\<rparr>, velocity = \<lparr>x = 0, y = 0\<rparr>,
        radius = 25, mass = 25 / 2, color = Color 255 0 0 255\<rparr>) +
   x (position
       \<lparr>position = \<lparr>x = 24, y = 27\<rparr>, velocity = \<lparr>x = 0, y = 0\<rparr>,
        radius = 25, mass = 25 / 2, color = Color 0 0 255 255\<rparr>)"
  by (simp add: mp_result in_contact_def distSq_def min_dist_def)

section \<open>Wall containment in binary32\<close>

lemma inside_window_fits:
  assumes "inside_window ball"
  shows "2 * radius ball \<le> WIDTH \<and> 2 * radius ball \<le> HEIGHT"
proof -
  have "real_of_int (radius ball) \<le> real_of_int (WIDTH - radius ball)"
    and "real_of_int (radius ball) \<le> real_of_int (HEIGHT - radius ball)"
    using assms by (simp_all add: inside_window_def)
  then show ?thesis by linarith
qed

lemma foldE_append:
  "foldE f (ks @ ls) s = (case foldE f ks s of Inl err \<Rightarrow> Inl err | Inr t \<Rightarrow> foldE f ls t)"
  by (induction ks arbitrary: s) (simp_all split: sum.splits)

lemma radius_static: "static_part b' = static_part b \<Longrightarrow> radius b' = radius b"
  by (simp add: static_part_def)

lemma foldE_identity:
  assumes "\<And>k. k \<in> set ks \<Longrightarrow> f k s = Inr s"
  shows "foldE f ks s = Inr s"
  using assms by (induction ks) simp_all

lemma list_all_upt: "list_all P [m ..< n] \<longleftrightarrow> (\<forall>k. m \<le> k \<and> k < n \<longrightarrow> P k)"
  by (auto simp add: list_all_iff)

lemma list_all_take:
  assumes "n \<le> length bs"
  shows "list_all P (take n bs) \<longleftrightarrow> (\<forall>k < n. P (bs ! k))"
  using assms by (simp add: list_all_length)

lemma bounce32_between:
  assumes b: "bounce32 e limit r p v = Inr (p', v')"
    and r: "0 \<le> r" "2 * r \<le> limit" and l: "512 \<le> limit" "limit \<le> 1024"
  shows "real_of_int r \<le> p' \<and> p' \<le> real_of_int (limit - r)"
proof -
  have ir: "int32 r = Inr (real_of_int r)" using r l by (intro int32_exact) simp_all
  have il: "int32 limit = Inr (real_of_int limit)" using l by (intro int32_exact) simp_all
  have id: "int32 (limit - r) = Inr (real_of_int (limit - r))"
    using r l by (intro int32_exact) simp_all
  from b obtain low where low: "sub32 p (real_of_int r) = Inr low"
    and rest: "(if low \<le> 0 then bindE (mul32 v (- e)) (\<lambda>v'. Inr (real_of_int r, v'))
               else bindE (add32 p (real_of_int r)) (\<lambda>high.
                    bindE (int32 limit) (\<lambda>edge.
                      if high \<ge> edge then
                        bindE (int32 (limit - r)) (\<lambda>p'.
                        bindE (mul32 v (- e)) (\<lambda>v'. Inr (p', v')))
                      else Inr (p, v)))) = Inr (p', v')"
    unfolding bounce32_def ir bindE_Inr by (auto simp add: bindE_eq_Inr)
  show ?thesis
  proof (cases "low \<le> 0")
    case True
    then have "p' = real_of_int r" using rest by (auto simp add: bindE_eq_Inr)
    then show ?thesis using r by simp
  next
    case False
    then have "0 < p - real_of_int r"
      using fl32_pos[of "p - real_of_int r" low] low by (simp add: sub32_def)
    then have lo: "real_of_int r < p" by simp
    from rest False obtain high where high: "add32 p (real_of_int r) = Inr high"
      and rest2: "(if high \<ge> real_of_int limit then
                        bindE (int32 (limit - r)) (\<lambda>p'.
                        bindE (mul32 v (- e)) (\<lambda>v'. Inr (p', v')))
                      else Inr (p, v)) = Inr (p', v')"
      unfolding il by (auto simp add: bindE_eq_Inr il bindE_Inr)
    show ?thesis
    proof (cases "high \<ge> real_of_int limit")
      case True
      then have "p' = real_of_int (limit - r)"
        using rest2 by (auto simp add: bindE_eq_Inr id)
      then show ?thesis using r by simp
    next
      case False
      have "p + real_of_int r < real_of_int limit"
      proof (rule ccontr)
        assume "\<not> p + real_of_int r < real_of_int limit"
        then have "real_of_int limit \<le> p + real_of_int r" by simp
        then have "real_of_int limit \<le> high"
          using fl32_ge_edge[of limit "p + real_of_int r" high] l high by (simp add: add32_def)
        then show False using False by simp
      qed
      moreover have "p' = p" using rest2 False by simp
      ultimately show ?thesis using lo by simp
    qed
  qed
qed

lemma CheckWallCollision32_inside:
  assumes w: "CheckWallCollision32 e ball = Inr ball'"
    and r: "0 \<le> radius ball" "2 * radius ball \<le> WIDTH" "2 * radius ball \<le> HEIGHT"
  shows "inside_window ball' \<and> static_part ball' = static_part ball"
proof -
  from w obtain h v where h: "bounce32 e WIDTH (radius ball) (x (position ball)) (x (velocity ball)) = Inr h"
    and v: "bounce32 e HEIGHT (radius ball) (y (position ball)) (y (velocity ball)) = Inr v"
    and ball': "ball' = ball\<lparr>position := \<lparr>x = fst h, y = fst v\<rparr>,
                           velocity := \<lparr>x = snd h, y = snd v\<rparr>\<rparr>"
    by (auto simp add: CheckWallCollision32_def bindE_eq_Inr)
  have "real_of_int (radius ball) \<le> fst h \<and> fst h \<le> real_of_int (WIDTH - radius ball)"
    using bounce32_between[of e WIDTH "radius ball" _ _ "fst h" "snd h"] h r
    by (simp add: WIDTH_def)
  moreover have "real_of_int (radius ball) \<le> fst v \<and> fst v \<le> real_of_int (HEIGHT - radius ball)"
    using bounce32_between[of e HEIGHT "radius ball" _ _ "fst v" "snd v"] v r
    by (simp add: HEIGHT_def)
  ultimately show ?thesis by (simp add: ball' inside_window_def static_part_def)
qed

lemma CheckBallCollision32_static:
  assumes "CheckBallCollision32 e b1 b2 = Inr (b1', b2')"
  shows "static_part b1' = static_part b1 \<and> static_part b2' = static_part b2"
  using assms
  by (auto simp add: CheckBallCollision32_def bindE_eq_Inr static_part_def split: if_splits)

lemma CheckBallCollision32_no_contact:
  assumes "contact_test32 b1 b2 = Inr False"
  shows "CheckBallCollision32 e b1 b2 = Inr (b1, b2)"
  using assms
  by (auto simp add: contact_test32_def CheckBallCollision32_def bindE_eq_Inr bindE_Inr)

lemma integrate32_static:
  assumes "integrate32 deltaTime ball = Inr ball'"
  shows "static_part ball' = static_part ball"
  using assms by (auto simp add: integrate32_def bindE_eq_Inr static_part_def)

lemma move_step32_static:
  assumes "move_step32 deltaTime i bs = Inr bs'"
  shows "map static_part bs' = map static_part bs"
proof -
  from assms obtain ball where b: "integrate32 deltaTime (bs ! i) = Inr ball"
    and bs': "bs' = bs[i := ball]"
    by (auto simp add: move_step32_def bindE_eq_Inr)
  show ?thesis unfolding bs' using integrate32_static[OF b] by (intro map_static_update) simp
qed

lemma pair_step32_static:
  assumes "pair_step32 e i j bs = Inr bs'"
  shows "map static_part bs' = map static_part bs"
proof -
  from assms obtain pair where r: "CheckBallCollision32 e (bs ! i) (bs ! j) = Inr pair"
    and bs': "bs' = bs[i := fst pair, j := snd pair]"
    by (auto simp add: pair_step32_def bindE_eq_Inr)
  have s: "static_part (fst pair) = static_part (bs ! i)" "static_part (snd pair) = static_part (bs ! j)"
    using CheckBallCollision32_static[of e "bs ! i" "bs ! j" "fst pair" "snd pair"] r by simp_all
  have a: "map static_part (bs[i := fst pair]) = map static_part bs"
    using s(1) by (simp add: map_static_update)
  have "static_part (snd pair) = static_part (bs[i := fst pair] ! j)" if "j < length (bs[i := fst pair])"
  proof -
    have "static_part (bs[i := fst pair] ! j) = map static_part (bs[i := fst pair]) ! j"
      using that by simp
    also have "\<dots> = static_part (bs ! j)" using that by (simp only: a nth_map length_list_update)
    finally show ?thesis using s(2) by simp
  qed
  then have "map static_part (bs[i := fst pair, j := snd pair]) = map static_part (bs[i := fst pair])"
    by (rule map_static_update)
  then show ?thesis by (simp add: bs' a)
qed

lemma pair_step32_nth:
  assumes "pair_step32 e i j bs = Inr bs'" and "k \<noteq> i" and "k \<noteq> j"
  shows "bs' ! k = bs ! k"
  using assms by (auto simp add: pair_step32_def bindE_eq_Inr)

lemma collide_step32_parts:
  assumes "collide_step32 e n i bs = Inr bs'"
  shows "\<exists>w. CheckWallCollision32 e (bs ! i) = Inr w \<and>
             foldE (pair_step32 e i) [i + 1 ..< n] (bs[i := w]) = Inr bs'"
  using assms by (auto simp add: collide_step32_def bindE_eq_Inr)

lemma CheckWallCollision32_static:
  assumes "CheckWallCollision32 e ball = Inr ball'"
  shows "static_part ball' = static_part ball"
  using assms by (auto simp add: CheckWallCollision32_def bindE_eq_Inr static_part_def)

lemma collide_step32_static:
  assumes "collide_step32 e n i bs = Inr bs'"
  shows "map static_part bs' = map static_part bs"
proof -
  obtain w where w: "CheckWallCollision32 e (bs ! i) = Inr w"
    and f: "foldE (pair_step32 e i) [i + 1 ..< n] (bs[i := w]) = Inr bs'"
    using collide_step32_parts[OF assms] by blast
  have "map static_part bs' = map static_part (bs[i := w])"
    using f by (rule foldE_preserves[where g = "map static_part", rotated]) (rule pair_step32_static)
  also have "\<dots> = map static_part bs"
    using CheckWallCollision32_static[OF w] by (intro map_static_update) simp
  finally show ?thesis .
qed

lemma collide_step32_nth:
  assumes "collide_step32 e n i bs = Inr bs'" and "k < i"
  shows "bs' ! k = bs ! k"
proof -
  obtain w where w: "CheckWallCollision32 e (bs ! i) = Inr w"
    and f: "foldE (pair_step32 e i) [i + 1 ..< n] (bs[i := w]) = Inr bs'"
    using collide_step32_parts[OF assms(1)] by blast
  have "bs' ! k = bs[i := w] ! k"
  proof (rule foldE_preserves[where g = "\<lambda>s. s ! k", OF _ f])
    fix j s s' assume "j \<in> set [i + 1..<n]" and "pair_step32 e i j s = Inr s'"
    then show "s' ! k = s ! k" using assms(2) by (intro pair_step32_nth[of e i j s s' k]) simp_all
  qed
  then show ?thesis using assms(2) by simp
qed

lemma pair_step32_no_contact:
  assumes "contact_test32 (bs ! i) (bs ! j) = Inr False"
  shows "pair_step32 e i j bs = Inr bs"
  using CheckBallCollision32_no_contact[OF assms, of e]
  by (simp add: pair_step32_def bindE_Inr)

lemma collide_step32_untouched:
  assumes k: "k < length s"
    and w: "CheckWallCollision32 e (s ! k) = Inr w"
    and free: "list_all (\<lambda>j. contact_test32 w (s ! j) = Inr False) [k + 1 ..< n]"
  shows "collide_step32 e n k s = Inr (s[k := w])"
proof -
  define t where "t = s[k := w]"
  have "foldE (pair_step32 e k) [k + 1 ..< n] t = Inr t"
  proof (rule foldE_identity)
    fix j assume j: "j \<in> set [k + 1..<n]"
    then have "contact_test32 w (s ! j) = Inr False" using free by (simp add: list_all_iff)
    moreover have "t ! k = w" using k by (simp add: t_def)
    moreover have "t ! j = s ! j" using j by (simp add: t_def)
    ultimately have "contact_test32 (t ! k) (t ! j) = Inr False" by simp
    then show "pair_step32 e k j t = Inr t" by (rule pair_step32_no_contact)
  qed
  then show ?thesis by (simp add: collide_step32_def w bindE_Inr t_def)
qed

lemma moved32_static:
  assumes "foldE (move_step32 deltaTime) ks balls = Inr moved"
  shows "map static_part moved = map static_part balls"
  using assms by (rule foldE_preserves[where g = "map static_part", rotated]) (rule move_step32_static)

lemma collide_loop32_static:
  assumes "foldE (collide_step32 e n) ks s = Inr s'"
  shows "map static_part s' = map static_part s"
  using assms by (rule foldE_preserves[where g = "map static_part", rotated]) (rule collide_step32_static)

lemma state_before32_static:
  assumes "state_before32 e deltaTime balls numBalls k = Inr s"
  shows "map static_part s = map static_part balls"
proof -
  from assms obtain moved where m: "foldE (move_step32 deltaTime) [0 ..< nat numBalls] balls = Inr moved"
    and s: "foldE (collide_step32 e (nat numBalls)) [0 ..< k] moved = Inr s"
    by (auto simp add: state_before32_def bindE_eq_Inr)
  show ?thesis using collide_loop32_static[OF s] moved32_static[OF m] by simp
qed

lemma UpdateFrame32_static:
  assumes "UpdateFrame32 e deltaTime balls numBalls = Inr balls'"
  shows "map static_part balls' = map static_part balls"
proof -
  from assms obtain moved where m: "foldE (move_step32 deltaTime) [0 ..< nat numBalls] balls = Inr moved"
    and s: "foldE (collide_step32 e (nat numBalls)) [0 ..< nat numBalls] moved = Inr balls'"
    by (auto simp add: UpdateFrame32_def bindE_eq_Inr split: if_splits)
  show ?thesis using collide_loop32_static[OF s] moved32_static[OF m] by simp
qed

lemma UpdateFrames32_static:
  assumes "UpdateFrames32 e deltaTimes balls numBalls = Inr balls'"
  shows "map static_part balls' = map static_part balls"
  using assms
proof (induction deltaTimes arbitrary: balls)
  case Nil
  then show ?case by simp
next
  case (Cons deltaTime rest)
  from Cons.prems obtain b1 where b1: "UpdateFrame32 e deltaTime balls numBalls = Inr b1"
    and r: "UpdateFrames32 e rest b1 numBalls = Inr balls'"
    by (auto simp add: bindE_eq_Inr)
  show ?case using Cons.IH[OF r] UpdateFrame32_static[OF b1] by simp
qed

lemma upt_split_at:
  assumes "k < n"
  shows "[0 ..< n] = [0 ..< k] @ k # [Suc k ..< n]"
proof -
  have "[0 ..< n] = [0 ..< k] @ [k ..< n]"
    using assms upt_add_eq_append[of 0 k "n - k"] by simp
  then show ?thesis using assms by (simp add: upt_conv_Cons)
qed

lemma UpdateFrame32_split:
  assumes r: "UpdateFrame32 e deltaTime balls numBalls = Inr balls'" and k: "k < nat numBalls"
  shows "\<exists>s t. state_before32 e deltaTime balls numBalls k = Inr s \<and>
               collide_step32 e (nat numBalls) k s = Inr t \<and>
               foldE (collide_step32 e (nat numBalls)) [Suc k ..< nat numBalls] t = Inr balls'"
proof -
  from r obtain moved where m: "foldE (move_step32 deltaTime) [0 ..< nat numBalls] balls = Inr moved"
    and c: "foldE (collide_step32 e (nat numBalls)) [0 ..< nat numBalls] moved = Inr balls'"
    by (auto simp add: UpdateFrame32_def bindE_eq_Inr split: if_splits)
  have "foldE (collide_step32 e (nat numBalls)) ([0 ..< k] @ k # [Suc k ..< nat numBalls]) moved
        = Inr balls'"
    using c upt_split_at[OF k] by simp
  then obtain s t where "foldE (collide_step32 e (nat numBalls)) [0 ..< k] moved = Inr s"
    and "collide_step32 e (nat numBalls) k s = Inr t"
    and "foldE (collide_step32 e (nat numBalls)) [Suc k ..< nat numBalls] t = Inr balls'"
    unfolding foldE_append by (auto split: sum.splits)
  then show ?thesis using m by (auto simp add: state_before32_def bindE_Inr)
qed

lemma UpdateFrame32_untouched_inside:
  assumes r: "UpdateFrame32 e deltaTime balls numBalls = Inr balls'" and k: "k < nat numBalls"
    and u: "untouched32 e deltaTime balls numBalls k"
    and fits: "0 \<le> radius (balls ! k)" "2 * radius (balls ! k) \<le> WIDTH"
              "2 * radius (balls ! k) \<le> HEIGHT"
  shows "inside_window (balls' ! k)"
proof -
  obtain s t where s: "state_before32 e deltaTime balls numBalls k = Inr s"
    and t: "collide_step32 e (nat numBalls) k s = Inr t"
    and rest: "foldE (collide_step32 e (nat numBalls)) [Suc k ..< nat numBalls] t = Inr balls'"
    using UpdateFrame32_split[OF r k] by blast
  from u s obtain w where w: "CheckWallCollision32 e (s ! k) = Inr w"
    and free: "list_all (\<lambda>j. contact_test32 w (s ! j) = Inr False) [k + 1 ..< nat numBalls]"
    by (auto simp add: untouched32_def split: sum.splits)
  have st: "map static_part s = map static_part balls" by (rule state_before32_static[OF s])
  have len: "nat numBalls \<le> length balls"
    using r by (auto simp add: UpdateFrame32_def split: if_splits)
  have ls: "length s = length balls" using st by (rule map_eq_imp_length_eq)
  have ks: "k < length s" using k len ls by simp
  have "static_part (s ! k) = static_part (balls ! k)"
    using static_part_nth[OF st, of k] k len by simp
  then have "radius (s ! k) = radius (balls ! k)" by (rule radius_static)
  then have "inside_window w"
    using CheckWallCollision32_inside[OF w] fits by simp
  moreover have "t = s[k := w]"
    using collide_step32_untouched[OF ks w free] t by simp
  then have "t ! k = w" using ks by simp
  moreover have "balls' ! k = t ! k"
  proof (rule foldE_preserves[where g = "\<lambda>s. s ! k", OF _ rest])
    fix i a a' assume "i \<in> set [Suc k..<nat numBalls]" and "collide_step32 e (nat numBalls) i a = Inr a'"
    then show "a' ! k = a ! k" by (intro collide_step32_nth[of e "nat numBalls" i a a' k]) simp_all
  qed
  ultimately show ?thesis by simp
qed

lemma untouched32_last:
  assumes r: "UpdateFrame32 e deltaTime balls numBalls = Inr balls'" and n: "0 < numBalls"
  shows "untouched32 e deltaTime balls numBalls (nat numBalls - 1)"
proof -
  define m where "m = nat numBalls - 1"
  have k: "m < nat numBalls" and up: "nat numBalls \<le> Suc m" using n by (simp_all add: m_def)
  obtain s t where s: "state_before32 e deltaTime balls numBalls m = Inr s"
    and t: "collide_step32 e (nat numBalls) m s = Inr t"
    using UpdateFrame32_split[OF r k] by blast
  obtain w where w: "CheckWallCollision32 e (s ! m) = Inr w"
    using collide_step32_parts[OF t] by blast
  have "untouched32 e deltaTime balls numBalls m"
    by (simp add: untouched32_def s w up)
  then show ?thesis by (simp only: m_def)
qed

text \<open>Claim C4, amended. The balls start inside the window with radii that are not negative,
  and the program runs any number of \<open>UpdateFrame\<close> steps with any frame times, computing
  in binary32 with every value finite. Then at the end of each step every ball that is
  untouched after its wall check in that step lies inside the window: \<open>radius \<le> position.x
  \<le> WIDTH - radius\<close> and \<open>radius \<le> position.y \<le> HEIGHT - radius\<close>. The last ball of the
  array is always untouched. What happened in earlier steps and what happens to other balls
  in this step does not matter. A ball that \<open>CheckBallCollision\<close> pushes after its own wall
  check can end the step outside the window.\<close>

theorem wall_containment:
  assumes n: "numBalls \<le> int (length balls)"
    and ins: "list_all (\<lambda>ball. 0 \<le> radius ball \<and> inside_window ball) (take (nat numBalls) balls)"
    and run: "UpdateFrames32 e deltaTimes balls numBalls = Inr mid"
    and step: "UpdateFrame32 e deltaTime mid numBalls = Inr balls'"
  shows "list_all (\<lambda>k. untouched32 e deltaTime mid numBalls k \<longrightarrow> inside_window (balls' ! k))
           [0 ..< nat numBalls] \<and>
         (0 < numBalls \<longrightarrow> inside_window (balls' ! (nat numBalls - 1)))"
proof -
  have len: "nat numBalls \<le> length balls" using n by linarith
  have st: "map static_part mid = map static_part balls" by (rule UpdateFrames32_static[OF run])
  have fits: "0 \<le> radius (mid ! k) \<and> 2 * radius (mid ! k) \<le> WIDTH \<and> 2 * radius (mid ! k) \<le> HEIGHT"
    if k: "k < nat numBalls" for k
  proof -
    have "0 \<le> radius (balls ! k) \<and> inside_window (balls ! k)"
      using ins k unfolding list_all_take[OF len] by simp
    moreover have "static_part (mid ! k) = static_part (balls ! k)"
      using static_part_nth[OF st, of k] k len by simp
    then have "radius (mid ! k) = radius (balls ! k)" by (rule radius_static)
    ultimately show ?thesis using inside_window_fits[of "balls ! k"] by simp
  qed
  have a: "inside_window (balls' ! k)"
    if "k < nat numBalls" and "untouched32 e deltaTime mid numBalls k" for k
    using UpdateFrame32_untouched_inside[OF step that] fits[OF that(1)] by simp
  have b: "inside_window (balls' ! (nat numBalls - 1))" if "0 < numBalls"
  proof (rule a)
    show "nat numBalls - 1 < nat numBalls" using that by simp
    show "untouched32 e deltaTime mid numBalls (nat numBalls - 1)"
      using untouched32_last[OF step that] .
  qed
  show ?thesis using a b by (simp add: list_all_upt)
qed

text \<open>A run of two frames of 1/64 s with three balls. In the second frame the second
  ball reaches the first, which had its wall check before and is pushed out of the window;
  the second and the third ball are untouched after their wall checks and lie inside.\<close>

lemma upt_0_3: "[0 ..< 3] = [0, Suc 0, Suc (Suc 0)]"
  by (simp add: upt_rec)

lemma upt_1_3: "[Suc 0 ..< 3] = [Suc 0, Suc (Suc 0)]"
  by (simp add: upt_rec)

lemma upt_2_3: "[Suc (Suc 0) ..< 3] = [Suc (Suc 0)]"
  by (simp add: upt_rec)

lemma wc_sqrt_0: "sqrt 676 = 26"
  using real_sqrt_abs[of "26"] by (simp add: power2_eq_square)

lemma wc_op0: "mul32 0 (1 / 64) = Inr 0"
  by (simp add: fl32_eval)

lemma wc_op1: "add32 16 0 = Inr 16"
  by (simp add: fl32_eval)

lemma wc_op2: "add32 300 0 = Inr 300"
  by (simp add: fl32_eval)

lemma wc_op3: "mul32 (- 256) (1 / 64) = Inr (- 4)"
  by (simp add: fl32_eval)

lemma wc_op4: "add32 50 (- 4) = Inr 46"
  by (simp add: fl32_eval)

lemma wc_op5: "mul32 64 (1 / 64) = Inr 1"
  by (simp add: fl32_eval)

lemma wc_op6: "add32 400 1 = Inr 401"
  by (simp add: fl32_eval)

lemma wc_op7: "int32 15 = Inr 15"
  by (simp add: fl32_eval)

lemma wc_op8: "sub32 16 15 = Inr 1"
  by (simp add: fl32_eval)

lemma wc_op9: "add32 16 15 = Inr 31"
  by (simp add: fl32_eval)

lemma wc_op10: "int32 800 = Inr 800"
  by (simp add: fl32_eval)

lemma wc_op11: "sub32 300 15 = Inr 285"
  by (simp add: fl32_eval)

lemma wc_op12: "add32 300 15 = Inr 315"
  by (simp add: fl32_eval)

lemma wc_op13: "int32 600 = Inr 600"
  by (simp add: fl32_eval)

lemma wc_op14: "sub32 46 16 = Inr 30"
  by (simp add: fl32_eval)

lemma wc_op15: "sub32 300 300 = Inr 0"
  by (simp add: fl32_eval)

lemma wc_op16: "mul32 30 30 = Inr 900"
  by (simp add: fl32_eval)

lemma wc_op17: "mul32 0 0 = Inr 0"
  by (simp add: fl32_eval)

lemma wc_op18: "add32 900 0 = Inr 900"
  by (simp add: fl32_eval)

lemma wc_op19: "int32 30 = Inr 30"
  by (simp add: fl32_eval)

lemma wc_op20: "sub32 401 16 = Inr 385"
  by (simp add: fl32_eval)

lemma wc_op21: "mul32 385 385 = Inr 148225"
  by (simp add: fl32_eval)

lemma wc_op22: "add32 148225 0 = Inr 148225"
  by (simp add: fl32_eval)

lemma wc_op23: "int32 35 = Inr 35"
  by (simp add: fl32_eval)

lemma wc_op24: "mul32 35 35 = Inr 1225"
  by (simp add: fl32_eval)

lemma wc_op25: "sub32 46 15 = Inr 31"
  by (simp add: fl32_eval)

lemma wc_op26: "add32 46 15 = Inr 61"
  by (simp add: fl32_eval)

lemma wc_op27: "sub32 401 46 = Inr 355"
  by (simp add: fl32_eval)

lemma wc_op28: "mul32 355 355 = Inr 126025"
  by (simp add: fl32_eval)

lemma wc_op29: "add32 126025 0 = Inr 126025"
  by (simp add: fl32_eval)

lemma wc_op30: "int32 20 = Inr 20"
  by (simp add: fl32_eval)

lemma wc_op31: "sub32 401 20 = Inr 381"
  by (simp add: fl32_eval)

lemma wc_op32: "add32 401 20 = Inr 421"
  by (simp add: fl32_eval)

lemma wc_op33: "sub32 300 20 = Inr 280"
  by (simp add: fl32_eval)

lemma wc_op34: "add32 300 20 = Inr 320"
  by (simp add: fl32_eval)

lemma wc_op35: "add32 46 (- 4) = Inr 42"
  by (simp add: fl32_eval)

lemma wc_op36: "add32 401 1 = Inr 402"
  by (simp add: fl32_eval)

lemma wc_op37: "sub32 42 16 = Inr 26"
  by (simp add: fl32_eval)

lemma wc_op38: "mul32 26 26 = Inr 676"
  by (simp add: fl32_eval)

lemma wc_op39: "add32 676 0 = Inr 676"
  by (simp add: fl32_eval)

lemma wc_op40: "sqrt32 676 = Inr 26"
  by (simp add: fl32_eval wc_sqrt_0)

lemma wc_op41: "div32 26 26 = Inr 1"
  by (simp add: fl32_eval)

lemma wc_op42: "div32 0 26 = Inr 0"
  by (simp add: fl32_eval)

lemma wc_op43: "sub32 30 26 = Inr 4"
  by (simp add: fl32_eval)

lemma wc_op44: "mul32 (1 / 2) 4 = Inr 2"
  by (simp add: fl32_eval)

lemma wc_op45: "mul32 2 1 = Inr 2"
  by (simp add: fl32_eval)

lemma wc_op46: "sub32 16 2 = Inr 14"
  by (simp add: fl32_eval)

lemma wc_op47: "mul32 2 0 = Inr 0"
  by (simp add: fl32_eval)

lemma wc_op48: "sub32 300 0 = Inr 300"
  by (simp add: fl32_eval)

lemma wc_op49: "add32 42 2 = Inr 44"
  by (simp add: fl32_eval)

lemma wc_op50: "sub32 (- 256) 0 = Inr (- 256)"
  by (simp add: fl32_eval)

lemma wc_op51: "sub32 0 0 = Inr 0"
  by (simp add: fl32_eval)

lemma wc_op52: "mul32 (- 256) 1 = Inr (- 256)"
  by (simp add: fl32_eval)

lemma wc_op53: "add32 (- 256) 0 = Inr (- 256)"
  by (simp add: fl32_eval)

lemma wc_op54: "add32 1 1 = Inr 2"
  by (simp add: fl32_eval)

lemma wc_op55: "mul32 (- 2) (- 256) = Inr 512"
  by (simp add: fl32_eval)

lemma wc_op56: "div32 1 (15 / 2) = Inr (8947849 / 67108864)"
  by (simp add: fl32_eval)

lemma wc_op57: "add32 (8947849 / 67108864) (8947849 / 67108864) = Inr (8947849 / 33554432)"
  by (simp add: fl32_eval)

lemma wc_op58: "div32 512 (8947849 / 33554432) = Inr (15728639 / 8192)"
  by (simp add: fl32_eval)

lemma wc_op59: "mul32 (15728639 / 8192) 1 = Inr (15728639 / 8192)"
  by (simp add: fl32_eval)

lemma wc_op60: "mul32 (15728639 / 8192) 0 = Inr 0"
  by (simp add: fl32_eval)

lemma wc_op61: "div32 (15728639 / 8192) (15 / 2) = Inr (16777215 / 65536)"
  by (simp add: fl32_eval)

lemma wc_op62: "sub32 0 (16777215 / 65536) = Inr (- (16777215 / 65536))"
  by (simp add: fl32_eval)

lemma wc_op63: "div32 0 (15 / 2) = Inr 0"
  by (simp add: fl32_eval)

lemma wc_op64: "add32 (- 256) (16777215 / 65536) = Inr (- (1 / 65536))"
  by (simp add: fl32_eval)

lemma wc_op65: "add32 0 0 = Inr 0"
  by (simp add: fl32_eval)

lemma wc_op66: "sub32 402 14 = Inr 388"
  by (simp add: fl32_eval)

lemma wc_op67: "mul32 388 388 = Inr 150544"
  by (simp add: fl32_eval)

lemma wc_op68: "add32 150544 0 = Inr 150544"
  by (simp add: fl32_eval)

lemma wc_op69: "sub32 44 15 = Inr 29"
  by (simp add: fl32_eval)

lemma wc_op70: "add32 44 15 = Inr 59"
  by (simp add: fl32_eval)

lemma wc_op71: "sub32 402 44 = Inr 358"
  by (simp add: fl32_eval)

lemma wc_op72: "mul32 358 358 = Inr 128164"
  by (simp add: fl32_eval)

lemma wc_op73: "add32 128164 0 = Inr 128164"
  by (simp add: fl32_eval)

lemma wc_op74: "sub32 402 20 = Inr 382"
  by (simp add: fl32_eval)

lemma wc_op75: "add32 402 20 = Inr 422"
  by (simp add: fl32_eval)

lemmas wc_ops = wc_sqrt_0 wc_op0 wc_op1 wc_op2 wc_op3 wc_op4 wc_op5 wc_op6 wc_op7 wc_op8 wc_op9 wc_op10 wc_op11 wc_op12 wc_op13 wc_op14 wc_op15 wc_op16 wc_op17 wc_op18 wc_op19 wc_op20 wc_op21 wc_op22 wc_op23 wc_op24 wc_op25 wc_op26 wc_op27 wc_op28 wc_op29 wc_op30 wc_op31 wc_op32 wc_op33 wc_op34 wc_op35 wc_op36 wc_op37 wc_op38 wc_op39 wc_op40 wc_op41 wc_op42 wc_op43 wc_op44 wc_op45 wc_op46 wc_op47 wc_op48 wc_op49 wc_op50 wc_op51 wc_op52 wc_op53 wc_op54 wc_op55 wc_op56 wc_op57 wc_op58 wc_op59 wc_op60 wc_op61 wc_op62 wc_op63 wc_op64 wc_op65 wc_op66 wc_op67 wc_op68 wc_op69 wc_op70 wc_op71 wc_op72 wc_op73 wc_op74 wc_op75

lemma wc_frame1:
  "UpdateFrame32 1 (1 / 64)
     [\<lparr>position = \<lparr>x = 16, y = 300\<rparr>, velocity = \<lparr>x = 0, y = 0\<rparr>,
        radius = 15, mass = 15 / 2, color = Color 255 0 0 255\<rparr>,
      \<lparr>position = \<lparr>x = 50, y = 300\<rparr>, velocity = \<lparr>x = - 256, y = 0\<rparr>,
        radius = 15, mass = 15 / 2, color = Color 0 0 255 255\<rparr>,
      \<lparr>position = \<lparr>x = 400, y = 300\<rparr>, velocity = \<lparr>x = 64, y = 0\<rparr>,
        radius = 20, mass = 10, color = Color 0 255 0 255\<rparr>] 3
   = Inr
     [\<lparr>position = \<lparr>x = 16, y = 300\<rparr>, velocity = \<lparr>x = 0, y = 0\<rparr>,
        radius = 15, mass = 15 / 2, color = Color 255 0 0 255\<rparr>,
      \<lparr>position = \<lparr>x = 46, y = 300\<rparr>, velocity = \<lparr>x = - 256, y = 0\<rparr>,
        radius = 15, mass = 15 / 2, color = Color 0 0 255 255\<rparr>,
      \<lparr>position = \<lparr>x = 401, y = 300\<rparr>, velocity = \<lparr>x = 64, y = 0\<rparr>,
        radius = 20, mass = 10, color = Color 0 255 0 255\<rparr>]"
  by (simp add: UpdateFrame32_def move_step32_def integrate32_def collide_step32_def CheckWallCollision32_def bounce32_def pair_step32_def CheckBallCollision32_def contact_test32_def state_before32_def untouched32_def bindE_Inr WIDTH_def HEIGHT_def upt_0_3 upt_1_3 upt_2_3 upt_0_2 wc_ops)

lemma wc_frame2:
  "UpdateFrame32 1 (1 / 64)
     [\<lparr>position = \<lparr>x = 16, y = 300\<rparr>, velocity = \<lparr>x = 0, y = 0\<rparr>,
        radius = 15, mass = 15 / 2, color = Color 255 0 0 255\<rparr>,
      \<lparr>position = \<lparr>x = 46, y = 300\<rparr>, velocity = \<lparr>x = - 256, y = 0\<rparr>,
        radius = 15, mass = 15 / 2, color = Color 0 0 255 255\<rparr>,
      \<lparr>position = \<lparr>x = 401, y = 300\<rparr>, velocity = \<lparr>x = 64, y = 0\<rparr>,
        radius = 20, mass = 10, color = Color 0 255 0 255\<rparr>] 3
   = Inr
     [\<lparr>position = \<lparr>x = 14, y = 300\<rparr>, velocity = \<lparr>x = - 16777215 / 65536, y = 0\<rparr>,
        radius = 15, mass = 15 / 2, color = Color 255 0 0 255\<rparr>,
      \<lparr>position = \<lparr>x = 44, y = 300\<rparr>, velocity = \<lparr>x = - 1 / 65536, y = 0\<rparr>,
        radius = 15, mass = 15 / 2, color = Color 0 0 255 255\<rparr>,
      \<lparr>position = \<lparr>x = 402, y = 300\<rparr>, velocity = \<lparr>x = 64, y = 0\<rparr>,
        radius = 20, mass = 10, color = Color 0 255 0 255\<rparr>]"
  by (simp add: UpdateFrame32_def move_step32_def integrate32_def collide_step32_def CheckWallCollision32_def bounce32_def pair_step32_def CheckBallCollision32_def contact_test32_def state_before32_def untouched32_def bindE_Inr WIDTH_def HEIGHT_def upt_0_3 upt_1_3 upt_2_3 upt_0_2 wc_ops)

lemma wc_untouched:
  "\<not> untouched32 1 (1 / 64)
     [\<lparr>position = \<lparr>x = 16, y = 300\<rparr>, velocity = \<lparr>x = 0, y = 0\<rparr>,
        radius = 15, mass = 15 / 2, color = Color 255 0 0 255\<rparr>,
      \<lparr>position = \<lparr>x = 46, y = 300\<rparr>, velocity = \<lparr>x = - 256, y = 0\<rparr>,
        radius = 15, mass = 15 / 2, color = Color 0 0 255 255\<rparr>,
      \<lparr>position = \<lparr>x = 401, y = 300\<rparr>, velocity = \<lparr>x = 64, y = 0\<rparr>,
        radius = 20, mass = 10, color = Color 0 255 0 255\<rparr>] 3 0 \<and>
   untouched32 1 (1 / 64)
     [\<lparr>position = \<lparr>x = 16, y = 300\<rparr>, velocity = \<lparr>x = 0, y = 0\<rparr>,
        radius = 15, mass = 15 / 2, color = Color 255 0 0 255\<rparr>,
      \<lparr>position = \<lparr>x = 46, y = 300\<rparr>, velocity = \<lparr>x = - 256, y = 0\<rparr>,
        radius = 15, mass = 15 / 2, color = Color 0 0 255 255\<rparr>,
      \<lparr>position = \<lparr>x = 401, y = 300\<rparr>, velocity = \<lparr>x = 64, y = 0\<rparr>,
        radius = 20, mass = 10, color = Color 0 255 0 255\<rparr>] 3 1 \<and>
   untouched32 1 (1 / 64)
     [\<lparr>position = \<lparr>x = 16, y = 300\<rparr>, velocity = \<lparr>x = 0, y = 0\<rparr>,
        radius = 15, mass = 15 / 2, color = Color 255 0 0 255\<rparr>,
      \<lparr>position = \<lparr>x = 46, y = 300\<rparr>, velocity = \<lparr>x = - 256, y = 0\<rparr>,
        radius = 15, mass = 15 / 2, color = Color 0 0 255 255\<rparr>,
      \<lparr>position = \<lparr>x = 401, y = 300\<rparr>, velocity = \<lparr>x = 64, y = 0\<rparr>,
        radius = 20, mass = 10, color = Color 0 255 0 255\<rparr>] 3 2"
  by (simp add: UpdateFrame32_def move_step32_def integrate32_def collide_step32_def CheckWallCollision32_def bounce32_def pair_step32_def CheckBallCollision32_def contact_test32_def state_before32_def untouched32_def bindE_Inr WIDTH_def HEIGHT_def upt_0_3 upt_1_3 upt_2_3 upt_0_2 wc_ops)

theorem wall_containment_witness:
  "UpdateFrames32 1 [1 / 64]
     [\<lparr>position = \<lparr>x = 16, y = 300\<rparr>, velocity = \<lparr>x = 0, y = 0\<rparr>,
        radius = 15, mass = 15 / 2, color = Color 255 0 0 255\<rparr>,
      \<lparr>position = \<lparr>x = 50, y = 300\<rparr>, velocity = \<lparr>x = - 256, y = 0\<rparr>,
        radius = 15, mass = 15 / 2, color = Color 0 0 255 255\<rparr>,
      \<lparr>position = \<lparr>x = 400, y = 300\<rparr>, velocity = \<lparr>x = 64, y = 0\<rparr>,
        radius = 20, mass = 10, color = Color 0 255 0 255\<rparr>] 3
   = Inr
     [\<lparr>position = \<lparr>x = 16, y = 300\<rparr>, velocity = \<lparr>x = 0, y = 0\<rparr>,
        radius = 15, mass = 15 / 2, color = Color 255 0 0 255\<rparr>,
      \<lparr>position = \<lparr>x = 46, y = 300\<rparr>, velocity = \<lparr>x = - 256, y = 0\<rparr>,
        radius = 15, mass = 15 / 2, color = Color 0 0 255 255\<rparr>,
      \<lparr>position = \<lparr>x = 401, y = 300\<rparr>, velocity = \<lparr>x = 64, y = 0\<rparr>,
        radius = 20, mass = 10, color = Color 0 255 0 255\<rparr>] \<and>
   UpdateFrame32 1 (1 / 64)
     [\<lparr>position = \<lparr>x = 16, y = 300\<rparr>, velocity = \<lparr>x = 0, y = 0\<rparr>,
        radius = 15, mass = 15 / 2, color = Color 255 0 0 255\<rparr>,
      \<lparr>position = \<lparr>x = 46, y = 300\<rparr>, velocity = \<lparr>x = - 256, y = 0\<rparr>,
        radius = 15, mass = 15 / 2, color = Color 0 0 255 255\<rparr>,
      \<lparr>position = \<lparr>x = 401, y = 300\<rparr>, velocity = \<lparr>x = 64, y = 0\<rparr>,
        radius = 20, mass = 10, color = Color 0 255 0 255\<rparr>] 3
   = Inr
     [\<lparr>position = \<lparr>x = 14, y = 300\<rparr>, velocity = \<lparr>x = - 16777215 / 65536, y = 0\<rparr>,
        radius = 15, mass = 15 / 2, color = Color 255 0 0 255\<rparr>,
      \<lparr>position = \<lparr>x = 44, y = 300\<rparr>, velocity = \<lparr>x = - 1 / 65536, y = 0\<rparr>,
        radius = 15, mass = 15 / 2, color = Color 0 0 255 255\<rparr>,
      \<lparr>position = \<lparr>x = 402, y = 300\<rparr>, velocity = \<lparr>x = 64, y = 0\<rparr>,
        radius = 20, mass = 10, color = Color 0 255 0 255\<rparr>] \<and>
   \<not> untouched32 1 (1 / 64)
     [\<lparr>position = \<lparr>x = 16, y = 300\<rparr>, velocity = \<lparr>x = 0, y = 0\<rparr>,
        radius = 15, mass = 15 / 2, color = Color 255 0 0 255\<rparr>,
      \<lparr>position = \<lparr>x = 46, y = 300\<rparr>, velocity = \<lparr>x = - 256, y = 0\<rparr>,
        radius = 15, mass = 15 / 2, color = Color 0 0 255 255\<rparr>,
      \<lparr>position = \<lparr>x = 401, y = 300\<rparr>, velocity = \<lparr>x = 64, y = 0\<rparr>,
        radius = 20, mass = 10, color = Color 0 255 0 255\<rparr>] 3 0 \<and>
   untouched32 1 (1 / 64)
     [\<lparr>position = \<lparr>x = 16, y = 300\<rparr>, velocity = \<lparr>x = 0, y = 0\<rparr>,
        radius = 15, mass = 15 / 2, color = Color 255 0 0 255\<rparr>,
      \<lparr>position = \<lparr>x = 46, y = 300\<rparr>, velocity = \<lparr>x = - 256, y = 0\<rparr>,
        radius = 15, mass = 15 / 2, color = Color 0 0 255 255\<rparr>,
      \<lparr>position = \<lparr>x = 401, y = 300\<rparr>, velocity = \<lparr>x = 64, y = 0\<rparr>,
        radius = 20, mass = 10, color = Color 0 255 0 255\<rparr>] 3 1 \<and>
   inside_window
     ([\<lparr>position = \<lparr>x = 14, y = 300\<rparr>, velocity = \<lparr>x = - 16777215 / 65536, y = 0\<rparr>,
        radius = 15, mass = 15 / 2, color = Color 255 0 0 255\<rparr>,
      \<lparr>position = \<lparr>x = 44, y = 300\<rparr>, velocity = \<lparr>x = - 1 / 65536, y = 0\<rparr>,
        radius = 15, mass = 15 / 2, color = Color 0 0 255 255\<rparr>,
      \<lparr>position = \<lparr>x = 402, y = 300\<rparr>, velocity = \<lparr>x = 64, y = 0\<rparr>,
        radius = 20, mass = 10, color = Color 0 255 0 255\<rparr>] ! 1) \<and>
   inside_window
     ([\<lparr>position = \<lparr>x = 14, y = 300\<rparr>, velocity = \<lparr>x = - 16777215 / 65536, y = 0\<rparr>,
        radius = 15, mass = 15 / 2, color = Color 255 0 0 255\<rparr>,
      \<lparr>position = \<lparr>x = 44, y = 300\<rparr>, velocity = \<lparr>x = - 1 / 65536, y = 0\<rparr>,
        radius = 15, mass = 15 / 2, color = Color 0 0 255 255\<rparr>,
      \<lparr>position = \<lparr>x = 402, y = 300\<rparr>, velocity = \<lparr>x = 64, y = 0\<rparr>,
        radius = 20, mass = 10, color = Color 0 255 0 255\<rparr>] ! 2) \<and>
   \<not> inside_window
     ([\<lparr>position = \<lparr>x = 14, y = 300\<rparr>, velocity = \<lparr>x = - 16777215 / 65536, y = 0\<rparr>,
        radius = 15, mass = 15 / 2, color = Color 255 0 0 255\<rparr>,
      \<lparr>position = \<lparr>x = 44, y = 300\<rparr>, velocity = \<lparr>x = - 1 / 65536, y = 0\<rparr>,
        radius = 15, mass = 15 / 2, color = Color 0 0 255 255\<rparr>,
      \<lparr>position = \<lparr>x = 402, y = 300\<rparr>, velocity = \<lparr>x = 64, y = 0\<rparr>,
        radius = 20, mass = 10, color = Color 0 255 0 255\<rparr>] ! 0)"
proof -
  have ins: "list_all (\<lambda>ball. 0 \<le> radius ball \<and> inside_window ball)
     (take (nat 3)
     [\<lparr>position = \<lparr>x = 16, y = 300\<rparr>, velocity = \<lparr>x = 0, y = 0\<rparr>,
        radius = 15, mass = 15 / 2, color = Color 255 0 0 255\<rparr>,
      \<lparr>position = \<lparr>x = 50, y = 300\<rparr>, velocity = \<lparr>x = - 256, y = 0\<rparr>,
        radius = 15, mass = 15 / 2, color = Color 0 0 255 255\<rparr>,
      \<lparr>position = \<lparr>x = 400, y = 300\<rparr>, velocity = \<lparr>x = 64, y = 0\<rparr>,
        radius = 20, mass = 10, color = Color 0 255 0 255\<rparr>])"
    by (simp add: inside_window_def WIDTH_def HEIGHT_def)
  have run: "UpdateFrames32 1 [1 / 64]
     [\<lparr>position = \<lparr>x = 16, y = 300\<rparr>, velocity = \<lparr>x = 0, y = 0\<rparr>,
        radius = 15, mass = 15 / 2, color = Color 255 0 0 255\<rparr>,
      \<lparr>position = \<lparr>x = 50, y = 300\<rparr>, velocity = \<lparr>x = - 256, y = 0\<rparr>,
        radius = 15, mass = 15 / 2, color = Color 0 0 255 255\<rparr>,
      \<lparr>position = \<lparr>x = 400, y = 300\<rparr>, velocity = \<lparr>x = 64, y = 0\<rparr>,
        radius = 20, mass = 10, color = Color 0 255 0 255\<rparr>] 3
   = Inr
     [\<lparr>position = \<lparr>x = 16, y = 300\<rparr>, velocity = \<lparr>x = 0, y = 0\<rparr>,
        radius = 15, mass = 15 / 2, color = Color 255 0 0 255\<rparr>,
      \<lparr>position = \<lparr>x = 46, y = 300\<rparr>, velocity = \<lparr>x = - 256, y = 0\<rparr>,
        radius = 15, mass = 15 / 2, color = Color 0 0 255 255\<rparr>,
      \<lparr>position = \<lparr>x = 401, y = 300\<rparr>, velocity = \<lparr>x = 64, y = 0\<rparr>,
        radius = 20, mass = 10, color = Color 0 255 0 255\<rparr>]"
    by (simp add: wc_frame1 bindE_Inr)
  have "list_all (\<lambda>k. untouched32 1 (1 / 64)
     [\<lparr>position = \<lparr>x = 16, y = 300\<rparr>, velocity = \<lparr>x = 0, y = 0\<rparr>,
        radius = 15, mass = 15 / 2, color = Color 255 0 0 255\<rparr>,
      \<lparr>position = \<lparr>x = 46, y = 300\<rparr>, velocity = \<lparr>x = - 256, y = 0\<rparr>,
        radius = 15, mass = 15 / 2, color = Color 0 0 255 255\<rparr>,
      \<lparr>position = \<lparr>x = 401, y = 300\<rparr>, velocity = \<lparr>x = 64, y = 0\<rparr>,
        radius = 20, mass = 10, color = Color 0 255 0 255\<rparr>] 3 k \<longrightarrow>
       inside_window ([\<lparr>position = \<lparr>x = 14, y = 300\<rparr>, velocity = \<lparr>x = - 16777215 / 65536, y = 0\<rparr>,
        radius = 15, mass = 15 / 2, color = Color 255 0 0 255\<rparr>,
      \<lparr>position = \<lparr>x = 44, y = 300\<rparr>, velocity = \<lparr>x = - 1 / 65536, y = 0\<rparr>,
        radius = 15, mass = 15 / 2, color = Color 0 0 255 255\<rparr>,
      \<lparr>position = \<lparr>x = 402, y = 300\<rparr>, velocity = \<lparr>x = 64, y = 0\<rparr>,
        radius = 20, mass = 10, color = Color 0 255 0 255\<rparr>] ! k)) [0 ..< nat 3] \<and>
     ((0::int) < 3 \<longrightarrow> inside_window ([\<lparr>position = \<lparr>x = 14, y = 300\<rparr>, velocity = \<lparr>x = - 16777215 / 65536, y = 0\<rparr>,
        radius = 15, mass = 15 / 2, color = Color 255 0 0 255\<rparr>,
      \<lparr>position = \<lparr>x = 44, y = 300\<rparr>, velocity = \<lparr>x = - 1 / 65536, y = 0\<rparr>,
        radius = 15, mass = 15 / 2, color = Color 0 0 255 255\<rparr>,
      \<lparr>position = \<lparr>x = 402, y = 300\<rparr>, velocity = \<lparr>x = 64, y = 0\<rparr>,
        radius = 20, mass = 10, color = Color 0 255 0 255\<rparr>] ! (nat 3 - 1)))"
    by (rule wall_containment[OF _ ins run wc_frame2]) simp
  then show ?thesis
    using run wc_frame2 wc_untouched
    by (simp add: upt_0_3 inside_window_def WIDTH_def HEIGHT_def)
qed

end
